theory Spec2Isabelle
  imports Complex_Main "HOL-Library.List_Lexorder" "HOL-Library.Char_ord" "HOL-Library.AList"
begin

section \<open>The weather-statistics pipeline of \<^verbatim>\<open>Temp_Statistic.py\<close>\<close>

text \<open>
  The development embeds the functions of \<^verbatim>\<open>src/Temp_Statistic.py\<close>:
  \<^verbatim>\<open>get_historical_temperature\<close>, \<^verbatim>\<open>create_heatmap\<close>,
  \<^verbatim>\<open>save_temperature_data\<close>, \<^verbatim>\<open>create_trend_plots\<close> and
  \<^verbatim>\<open>process_temperature_pipeline\<close>.

  Conventions of the embedding.
  \<^item> Python floats are exact rationals (\<^typ>\<open>rat\<close>); a JSON \<^verbatim>\<open>null\<close> in a metric
    array, which pandas stores as NaN, is \<^term>\<open>None\<close>, and so is a NaN result.
  \<^item> An exception is a value \<open>Inl e\<close> of a sum type; Python's \<^verbatim>\<open>None\<close> return of the
    fetcher is \<open>Inr None\<close>.
  \<^item> The outcome of the HTTP request for a location (\<^verbatim>\<open>requests.get\<close> followed by
    \<^verbatim>\<open>response.json()\<close>) is an input, paired with the location.
  \<^item> Every call of \<^verbatim>\<open>datetime.now()\<close> whose value reaches a file name is an input.
  \<^item> A run ends with the list of the files it has written, in the order of the writes,
    and with the exception that ended it, if there is one. Of the file system only the
    output directory is known to exist, \<^verbatim>\<open>create_directories\<close> having made it: writing
    to a file name that holds a separator raises \<^verbatim>\<open>FileNotFoundError\<close>, any other write
    succeeds.
  \<^item> Drawing a figure (matplotlib, seaborn, numpy) is taken not to raise; saving it can.
  \<^item> A data frame is the list of its rows.
\<close>

subsection \<open>Errors, dates and clock readings\<close>

datatype error =
    ConnectionError
  | JSONDecodeError
  | KeyError string
  | ValueError
  | ZeroDivisionError
  | FileNotFoundError

record date =
  year :: nat
  month :: nat
  day :: nat

text \<open>Ascending order of calendar dates, as pandas compares timestamps.\<close>

definition date_le :: "date \<Rightarrow> date \<Rightarrow> bool" where
  "date_le a b \<longleftrightarrow>
     year a < year b \<or>
     (year a = year b \<and> (month a < month b \<or> (month a = month b \<and> day a \<le> day b)))"

definition date_ascending :: "date list \<Rightarrow> bool" where
  "date_ascending ds = sorted_wrt date_le ds"

record datetime =
  dt_year :: nat
  dt_month :: nat
  dt_day :: nat
  dt_hour :: nat
  dt_minute :: nat
  dt_second :: nat
  dt_microsecond :: nat

text \<open>
  The values \<^verbatim>\<open>datetime.now()\<close> can return: a four-digit year and fields in their
  calendar ranges (Python's \<^verbatim>\<open>datetime\<close> has no leap second).
\<close>

definition valid_datetime :: "datetime \<Rightarrow> bool" where
  "valid_datetime t \<longleftrightarrow>
     1000 \<le> dt_year t \<and> dt_year t \<le> 9999 \<and>
     1 \<le> dt_month t \<and> dt_month t \<le> 12 \<and>
     1 \<le> dt_day t \<and> dt_day t \<le> 31 \<and>
     dt_hour t < 24 \<and> dt_minute t < 60 \<and> dt_second t < 60 \<and>
     dt_microsecond t < 1000000"

text \<open>Two readings of the clock within the same second.\<close>

definition same_second :: "datetime \<Rightarrow> datetime \<Rightarrow> bool" where
  "same_second a b \<longleftrightarrow>
     dt_year a = dt_year b \<and> dt_month a = dt_month b \<and> dt_day a = dt_day b \<and>
     dt_hour a = dt_hour b \<and> dt_minute a = dt_minute b \<and> dt_second a = dt_second b"

definition digit :: "nat \<Rightarrow> char" where
  "digit d = ''0123456789'' ! d"

definition pad2 :: "nat \<Rightarrow> string" where
  "pad2 n = [digit (n div 10 mod 10), digit (n mod 10)]"

definition pad4 :: "nat \<Rightarrow> string" where
  "pad4 n = [digit (n div 1000 mod 10), digit (n div 100 mod 10),
             digit (n div 10 mod 10), digit (n mod 10)]"

text \<open>\<^verbatim>\<open>strftime("%Y%m%d_%H%M%S")\<close>; the microseconds are not printed.\<close>

definition strftime :: "datetime \<Rightarrow> string" where
  "strftime t =
     pad4 (dt_year t) @ pad2 (dt_month t) @ pad2 (dt_day t) @ ''_'' @
     pad2 (dt_hour t) @ pad2 (dt_minute t) @ pad2 (dt_second t)"

text \<open>
  \<^verbatim>\<open>os.path.join(a, b)\<close> of \<^verbatim>\<open>posixpath\<close> for two components: an absolute \<open>b\<close>
  replaces \<open>a\<close>; otherwise \<open>b\<close> is appended, after a separator unless \<open>a\<close> is empty or
  ends with one.
\<close>

definition os_path_join :: "string \<Rightarrow> string \<Rightarrow> string" where
  "os_path_join a b =
     (if b \<noteq> [] \<and> hd b = CHR ''/'' then b
      else if a = [] \<or> last a = CHR ''/'' then a @ b
      else a @ ''/'' @ b)"

subsection \<open>Month to season\<close>

text \<open>
  The dictionary literal passed to \<^verbatim>\<open>df['month'].map\<close>, in the source's order. The same
  literal stands in \<^verbatim>\<open>save_temperature_data\<close> (lines 134 to 147) and in
  \<^verbatim>\<open>create_trend_plots\<close> (lines 192 to 205). A month that is not a key maps to NaN,
  here \<^term>\<open>None\<close>.
\<close>

definition season_map :: "(nat \<times> string) list" where
  "season_map =
     [(12, ''Winter''), (1, ''Winter''), (2, ''Winter''),
      (3, ''Spring''), (4, ''Spring''), (5, ''Spring''),
      (6, ''Summer''), (7, ''Summer''), (8, ''Summer''),
      (9, ''Autumn''), (10, ''Autumn''), (11, ''Autumn'')]"

definition season_of_month :: "nat \<Rightarrow> string option" where
  "season_of_month m = map_of season_map m"

subsection \<open>Locations, responses and data frames\<close>

text \<open>
  An element of \<^verbatim>\<open>coordinates_list\<close>. Its \<^verbatim>\<open>timestamp\<close> entry is never read by the
  pipeline and is left out. The identifiers are the keys of the YAML document, strings
  such as \<^verbatim>\<open>'Aim 1'\<close>.
\<close>

record coordinate =
  aim_id :: string
  address :: string
  latitude :: rat
  longitude :: rat

text \<open>
  The \<^verbatim>\<open>daily\<close> object of the archive's JSON body: one array per requested variable,
  keyed by name, each of which may be absent. The \<^verbatim>\<open>time\<close> strings are calendar dates;
  \<^verbatim>\<open>pd.to_datetime\<close> is the library's parser and the dates are taken as parsed.
\<close>

record daily_json =
  time :: "date list option"
  temperature_2m_max :: "rat option list option"
  temperature_2m_min :: "rat option list option"
  temperature_2m_mean :: "rat option list option"
  relative_humidity_2m_mean :: "rat option list option"
  precipitation_sum :: "rat option list option"

text \<open>
  What \<^verbatim>\<open>requests.get(url)\<close> followed by \<^verbatim>\<open>response.json()\<close> does for one location:
  the request raises (a network error), the body is not JSON and \<^verbatim>\<open>json()\<close> raises, or
  a JSON body arrives, with or without the key \<^verbatim>\<open>'daily'\<close>.
\<close>

datatype response = RequestRaises | JsonRaises | Json "daily_json option"

record daily_weather_record =
  date :: date
  temperature_max :: "rat option"
  temperature_min :: "rat option"
  temperature_mean :: "rat option"
  humidity :: "rat option"
  precipitation :: "rat option"

type_synonym frame = "daily_weather_record list"

definition getitem :: "string \<Rightarrow> 'a option \<Rightarrow> error + 'a" where
  "getitem k v = (case v of None \<Rightarrow> Inl (KeyError k) | Some x \<Rightarrow> Inr x)"

definition and_then :: "error + 'a \<Rightarrow> ('a \<Rightarrow> error + 'b) \<Rightarrow> error + 'b" where
  "and_then r f = (case r of Inl e \<Rightarrow> Inl e | Inr x \<Rightarrow> f x)"

text \<open>
  \<^verbatim>\<open>pd.DataFrame({...})\<close> of six columns: pandas raises \<^verbatim>\<open>ValueError\<close> unless all
  arrays have the same length; otherwise row \<open>i\<close> holds the \<open>i\<close>-th entry of each array.
\<close>

definition DataFrame ::
  "date list \<Rightarrow> rat option list \<Rightarrow> rat option list \<Rightarrow> rat option list \<Rightarrow>
   rat option list \<Rightarrow> rat option list \<Rightarrow> error + frame" where
  "DataFrame t mx mn me h p =
     (if length mx = length t \<and> length mn = length t \<and> length me = length t \<and>
         length h = length t \<and> length p = length t
      then Inr (map (\<lambda>i. \<lparr>date = t ! i, temperature_max = mx ! i, temperature_min = mn ! i,
                           temperature_mean = me ! i, humidity = h ! i,
                           precipitation = p ! i\<rparr>) [0..<length t])
      else Inl ValueError)"

text \<open>
  \<^verbatim>\<open>get_historical_temperature(lat, lng)\<close>, lines 54 to 84. The first argument is the
  outcome of the request built from \<open>lat\<close> and \<open>lng\<close>. Nothing catches an exception of
  \<^verbatim>\<open>requests.get\<close> or \<^verbatim>\<open>response.json()\<close>. Without the key \<^verbatim>\<open>'daily'\<close> the function
  falls off its end and returns \<^verbatim>\<open>None\<close>.
\<close>

definition get_historical_temperature ::
  "response \<Rightarrow> rat \<Rightarrow> rat \<Rightarrow> error + frame option" where
  "get_historical_temperature resp lat lng =
     (case resp of
        RequestRaises \<Rightarrow> Inl ConnectionError
      | JsonRaises \<Rightarrow> Inl JSONDecodeError
      | Json data \<Rightarrow>
          (case data of
             None \<Rightarrow> Inr None
           | Some daily \<Rightarrow>
               and_then (getitem ''time'' (time daily)) (\<lambda>t.
               and_then (getitem ''temperature_2m_max'' (temperature_2m_max daily)) (\<lambda>mx.
               and_then (getitem ''temperature_2m_min'' (temperature_2m_min daily)) (\<lambda>mn.
               and_then (getitem ''temperature_2m_mean'' (temperature_2m_mean daily)) (\<lambda>me.
               and_then (getitem ''relative_humidity_2m_mean''
                           (relative_humidity_2m_mean daily)) (\<lambda>h.
               and_then (getitem ''precipitation_sum'' (precipitation_sum daily)) (\<lambda>p.
               and_then (DataFrame t mx mn me h p) (\<lambda>df. Inr (Some df))))))))))"

subsection \<open>Column statistics\<close>

text \<open>
  The pandas reductions skip NaN. Over no value at all, \<^verbatim>\<open>mean\<close>, \<^verbatim>\<open>min\<close> and
  \<^verbatim>\<open>max\<close> are NaN and \<^verbatim>\<open>sum\<close> is 0.
\<close>

definition dropna :: "rat option list \<Rightarrow> rat list" where
  "dropna xs = List.map_filter (\<lambda>x. x) xs"

definition series_mean :: "rat option list \<Rightarrow> rat option" where
  "series_mean xs =
     (let v = dropna xs in if v = [] then None else Some (sum_list v / of_nat (length v)))"

definition series_min :: "rat option list \<Rightarrow> rat option" where
  "series_min xs = (let v = dropna xs in if v = [] then None else Some (Min (set v)))"

definition series_max :: "rat option list \<Rightarrow> rat option" where
  "series_max xs = (let v = dropna xs in if v = [] then None else Some (Max (set v)))"

definition series_sum :: "rat option list \<Rightarrow> rat option" where
  "series_sum xs = Some (sum_list (dropna xs))"

text \<open>\<^verbatim>\<open>round(2)\<close>: numpy rounds the value scaled by 100 to the nearest integer, ties to even.\<close>

definition rint :: "rat \<Rightarrow> int" where
  "rint x =
     (let f = \<lfloor>x\<rfloor>; d = x - of_int f
      in if d < 1 / 2 then f else if 1 / 2 < d then f + 1 else if even f then f else f + 1)"

definition round2 :: "rat option \<Rightarrow> rat option" where
  "round2 v = (case v of None \<Rightarrow> None | Some x \<Rightarrow> Some (of_int (rint (x * 100)) / 100))"

subsection \<open>The heat map\<close>

text \<open>
  An element of \<^verbatim>\<open>temperature_data\<close>, the dictionary with the keys \<^verbatim>\<open>lat\<close>, \<^verbatim>\<open>lng\<close>,
  \<^verbatim>\<open>avg_temp\<close>, \<^verbatim>\<open>aim_id\<close> and \<^verbatim>\<open>address\<close> (the last two prefixed here, the names
  being fields of \<^typ>\<open>coordinate\<close>).
\<close>

record location_summary =
  lat :: rat
  lng :: rat
  avg_temp :: "rat option"
  loc_aim_id :: string
  loc_address :: string

text \<open>
  The folium map as data: the \<^verbatim>\<open>location\<close> it is centred at and the rows of the
  heat layer, each a latitude, a longitude and a weight. \<^verbatim>\<open>plugins.HeatMap\<close> accepts
  no NaN, so the weights of a map are numbers. The rendering to HTML is the library's.
\<close>

record heat_map =
  location :: "rat \<times> rat"
  heatmap_data :: "(rat \<times> rat \<times> rat) list"

text \<open>The added columns of a per-location table, beside the fetched ones.\<close>

record detail_row =
  base :: daily_weather_record
  col_aim_id :: string
  col_address :: string
  col_latitude :: "rat option"
  col_longitude :: "rat option"
  col_month :: nat
  col_year :: nat
  col_season :: "string option"

datatype cell = Str string | Num rat | NaN | PyNone

datatype content =
    HeatmapHtml heat_map
  | SummaryJson "location_summary list"
  | DetailCsv "detail_row list"
  | StatisticsCsv "(string \<rightharpoonup> cell) list"
  | TrendsPng frame

type_synonym written_file = "string \<times> content"

text \<open>
  What a function that writes files leaves: the files written, and the exception that
  ended it, if any.
\<close>

type_synonym outcome = "written_file list \<times> error option"

text \<open>
  Opening \<^verbatim>\<open>os.path.join(output_path, name)\<close> for writing. A name with a separator lies
  in a directory below \<^verbatim>\<open>output_path\<close> that nothing has created. The names built from
  a prefix, a timestamp and an extension alone hold no separator and are joined
  directly.
\<close>

definition open_for_writing :: "string \<Rightarrow> string \<Rightarrow> error + string" where
  "open_for_writing output_path name =
     (if CHR ''/'' \<in> set name then Inl FileNotFoundError
      else Inr (os_path_join output_path name))"

text \<open>
  \<^verbatim>\<open>create_heatmap\<close>, lines 89 to 111. \<^verbatim>\<open>sum(lats) / len(lats)\<close> raises
  \<^verbatim>\<open>ZeroDivisionError\<close> on the empty list. \<^verbatim>\<open>plugins.HeatMap(heatmap_data)\<close> raises
  \<^verbatim>\<open>ValueError\<close> when a row holds NaN, which only an average temperature can be. Both
  come before the map is saved. The result is the file saved.
\<close>

definition create_heatmap ::
  "location_summary list \<Rightarrow> string \<Rightarrow> datetime \<Rightarrow> error + written_file" where
  "create_heatmap temperature_data output_path now =
     (let lats = map lat temperature_data;
          lngs = map lng temperature_data
      in if length lats = 0 then Inl ZeroDivisionError
         else
           let center_lat = sum_list lats / of_nat (length lats);
               center_lng = sum_list lngs / of_nat (length lngs)
           in if list_ex (\<lambda>d. avg_temp d = None) temperature_data then Inl ValueError
              else
                let m = \<lparr>location = (center_lat, center_lng),
                         heatmap_data =
                           map (\<lambda>d. (lat d, lng d, the (avg_temp d))) temperature_data\<rparr>;
                    timestamp = strftime now;
                    file_path = os_path_join output_path
                                  (''temperature_heatmap_'' @ timestamp @ ''.html'')
                in Inr (file_path, HeatmapHtml m))"

subsection \<open>Seasonal statistics and the tables\<close>

datatype metric = Temperature_mean | Temperature_max | Temperature_min | Humidity | Precipitation

datatype statistic = Stat_mean | Stat_min | Stat_max | Stat_sum

fun metric_name :: "metric \<Rightarrow> string" where
  "metric_name Temperature_mean = ''temperature_mean''"
| "metric_name Temperature_max = ''temperature_max''"
| "metric_name Temperature_min = ''temperature_min''"
| "metric_name Humidity = ''humidity''"
| "metric_name Precipitation = ''precipitation''"

fun statistic_name :: "statistic \<Rightarrow> string" where
  "statistic_name Stat_mean = ''mean''"
| "statistic_name Stat_min = ''min''"
| "statistic_name Stat_max = ''max''"
| "statistic_name Stat_sum = ''sum''"

fun column :: "metric \<Rightarrow> daily_weather_record \<Rightarrow> rat option" where
  "column Temperature_mean r = temperature_mean r"
| "column Temperature_max r = temperature_max r"
| "column Temperature_min r = temperature_min r"
| "column Humidity r = humidity r"
| "column Precipitation r = precipitation r"

fun aggregate :: "statistic \<Rightarrow> rat option list \<Rightarrow> rat option" where
  "aggregate Stat_mean xs = series_mean xs"
| "aggregate Stat_min xs = series_min xs"
| "aggregate Stat_max xs = series_max xs"
| "aggregate Stat_sum xs = series_sum xs"

text \<open>The dictionary given to \<^verbatim>\<open>agg\<close>, lines 164 to 170, in the source's order.\<close>

definition agg_spec :: "(metric \<times> statistic list) list" where
  "agg_spec =
     [(Temperature_mean, [Stat_mean, Stat_min, Stat_max]),
      (Temperature_max, [Stat_mean, Stat_min, Stat_max]),
      (Temperature_min, [Stat_mean, Stat_min, Stat_max]),
      (Humidity, [Stat_mean, Stat_min, Stat_max]),
      (Precipitation, [Stat_sum, Stat_mean, Stat_max])]"

definition agg_columns :: "(metric \<times> statistic) list" where
  "agg_columns = concat (map (\<lambda>(m, sts). map (\<lambda>st. (m, st)) sts) agg_spec)"

text \<open>
  The location of \<^verbatim>\<open>all_data\<close> with the given identifier, the first one, as
  \<^verbatim>\<open>next(..., {})\<close> finds it; \<^term>\<open>None\<close> is the empty dictionary.
\<close>

definition find_location :: "location_summary list \<Rightarrow> string \<Rightarrow> location_summary option" where
  "find_location all_data a = find (\<lambda>d. loc_aim_id d = a) all_data"

text \<open>
  The columns added to a frame in lines 127 to 147; lines 190 to 205 of
  \<^verbatim>\<open>create_trend_plots\<close> add the same \<^verbatim>\<open>month\<close>, \<^verbatim>\<open>year\<close> and \<^verbatim>\<open>season\<close> to the same
  frame before.
\<close>

definition annotate :: "location_summary list \<Rightarrow> string \<Rightarrow> frame \<Rightarrow> detail_row list" where
  "annotate all_data a df =
     (let location = find_location all_data a
      in map (\<lambda>r. \<lparr>base = r, col_aim_id = a,
                    col_address = (case location of None \<Rightarrow> [] | Some d \<Rightarrow> loc_address d),
                    col_latitude = map_option lat location,
                    col_longitude = map_option lng location,
                    col_month = month (date r), col_year = year (date r),
                    col_season = season_of_month (month (date r))\<rparr>) df)"

text \<open>
  \<^verbatim>\<open>df.groupby('season')\<close>: the group keys are the seasons that occur, sorted, rows
  without a season being dropped; a group holds the rows of its season.
\<close>

definition group_keys :: "detail_row list \<Rightarrow> string list" where
  "group_keys df = sort (remdups (List.map_filter col_season df))"

definition group_rows :: "string \<Rightarrow> detail_row list \<Rightarrow> detail_row list" where
  "group_rows s df = filter (\<lambda>r. col_season r = Some s) df"

text \<open>One cell of \<^verbatim>\<open>grouped\<close>: a statistic of a metric over the rows of a season, rounded.\<close>

definition grouped_value :: "detail_row list \<Rightarrow> string \<Rightarrow> metric \<Rightarrow> statistic \<Rightarrow> rat option" where
  "grouped_value df s m st = round2 (aggregate st (map (\<lambda>r. column m (base r)) (group_rows s df)))"

text \<open>\<^verbatim>\<open>str.lower\<close> on ASCII text, which the season names are.\<close>

definition lower_char :: "char \<Rightarrow> char" where
  "lower_char c =
     (case map_of (zip ''ABCDEFGHIJKLMNOPQRSTUVWXYZ'' ''abcdefghijklmnopqrstuvwxyz'') c of
        None \<Rightarrow> c
      | Some l \<Rightarrow> l)"

definition lower :: "string \<Rightarrow> string" where
  "lower s = map lower_char s"

definition stat_key :: "string \<Rightarrow> metric \<Rightarrow> statistic \<Rightarrow> string" where
  "stat_key season m st = lower season @ ''_'' @ metric_name m @ ''_'' @ statistic_name st"

definition num_cell :: "rat option \<Rightarrow> cell" where
  "num_cell v = (case v of None \<Rightarrow> NaN | Some x \<Rightarrow> Num x)"

text \<open>The assignment \<^verbatim>\<open>d[k] = v\<close> to a dictionary.\<close>

definition setitem :: "('k \<rightharpoonup> 'v) \<Rightarrow> 'k \<Rightarrow> 'v \<Rightarrow> ('k \<rightharpoonup> 'v)" where
  "setitem d k v = d(k \<mapsto> v)"

text \<open>
  Lines 156 to 176 for one location: \<^verbatim>\<open>stats_dict\<close> starts with the identity fields
  and receives one entry per season of \<^verbatim>\<open>grouped.index\<close> and column of \<^verbatim>\<open>grouped\<close>.
\<close>

definition stats_dict :: "location_summary list \<Rightarrow> string \<Rightarrow> detail_row list \<Rightarrow> (string \<rightharpoonup> cell)" where
  "stats_dict all_data a df =
     (let location = find_location all_data a;
          init = [''aim_id'' \<mapsto> Str a,
                  ''address'' \<mapsto> (case location of None \<Rightarrow> PyNone | Some d \<Rightarrow> Str (loc_address d)),
                  ''latitude'' \<mapsto> (case location of None \<Rightarrow> PyNone | Some d \<Rightarrow> Num (lat d)),
                  ''longitude'' \<mapsto> (case location of None \<Rightarrow> PyNone | Some d \<Rightarrow> Num (lng d))]
      in fold (\<lambda>season d.
                 fold (\<lambda>(m, st) d'.
                         setitem d' (stat_key season m st) (num_cell (grouped_value df season m st)))
                      agg_columns d)
              (group_keys df) init)"

text \<open>
  The loop of lines 125 to 151: one detail CSV per entry of \<^verbatim>\<open>detailed_data\<close>, in its
  order; \<^verbatim>\<open>to_csv\<close> raises when the file cannot be opened.
\<close>

fun csv_each ::
  "location_summary list \<Rightarrow> string \<Rightarrow> string \<Rightarrow> (string \<times> frame) list \<Rightarrow> outcome" where
  "csv_each all_data output_path timestamp [] = ([], None)"
| "csv_each all_data output_path timestamp ((a, df) # rest) =
     (case open_for_writing output_path
             (''temperature_data_'' @ a @ ''_'' @ timestamp @ ''.csv'') of
        Inl e \<Rightarrow> ([], Some e)
      | Inr csv_path \<Rightarrow>
          (case csv_each all_data output_path timestamp rest of
             (fs, r) \<Rightarrow> ((csv_path, DetailCsv (annotate all_data a df)) # fs, r)))"

text \<open>
  \<^verbatim>\<open>save_temperature_data\<close>, lines 114 to 182: the summary JSON, the detail CSVs,
  then the statistics CSV, all under one timestamp.
\<close>

definition save_temperature_data ::
  "location_summary list \<Rightarrow> (string \<times> frame) list \<Rightarrow> string \<Rightarrow> datetime \<Rightarrow> outcome" where
  "save_temperature_data all_data detailed_data output_path now =
     (let timestamp = strftime now;
          summary = (os_path_join output_path (''temperature_summary_'' @ timestamp @ ''.json''),
                     SummaryJson all_data)
      in case csv_each all_data output_path timestamp detailed_data of
           (fs, Some e) \<Rightarrow> (summary # fs, Some e)
         | (fs, None) \<Rightarrow>
             (summary # fs @
                [(os_path_join output_path (''temperature_statistics_'' @ timestamp @ ''.csv''),
                  StatisticsCsv (map (\<lambda>(a, df). stats_dict all_data a (annotate all_data a df))
                                   detailed_data))],
              None))"

text \<open>
  The loop of \<^verbatim>\<open>create_trend_plots\<close>, lines 189 to 273: one figure per entry of
  \<^verbatim>\<open>detailed_data\<close>; \<^verbatim>\<open>plt.savefig\<close> raises when the file cannot be opened. The figure
  is represented by the frame it is drawn from.
\<close>

fun plot_each :: "string \<Rightarrow> string \<Rightarrow> (string \<times> frame) list \<Rightarrow> outcome" where
  "plot_each output_path timestamp [] = ([], None)"
| "plot_each output_path timestamp ((a, df) # rest) =
     (case open_for_writing output_path
             (''temperature_trends_'' @ a @ ''_'' @ timestamp @ ''.png'') of
        Inl e \<Rightarrow> ([], Some e)
      | Inr plot_path \<Rightarrow>
          (case plot_each output_path timestamp rest of
             (fs, r) \<Rightarrow> ((plot_path, TrendsPng df) # fs, r)))"

text \<open>\<^verbatim>\<open>create_trend_plots\<close>, lines 185 to 273, under a timestamp of its own.\<close>

definition create_trend_plots :: "(string \<times> frame) list \<Rightarrow> string \<Rightarrow> datetime \<Rightarrow> outcome" where
  "create_trend_plots detailed_data output_path now =
     plot_each output_path (strftime now) detailed_data"

subsection \<open>The pipeline\<close>

type_synonym config = "string \<rightharpoonup> (string \<rightharpoonup> string)"

text \<open>Lines 280 and 281.\<close>

definition config_output_path :: "config \<Rightarrow> string" where
  "config_output_path config =
     (let dflt = os_path_join ''data'' ''temperature_heatmaps''
      in case config ''directories'' of
           None \<Rightarrow> dflt
         | Some d \<Rightarrow> (case d ''temperature_output'' of None \<Rightarrow> dflt | Some p \<Rightarrow> p))"

text \<open>
  The loop of lines 292 to 305 over the locations, each with the outcome of its request.
  \<^verbatim>\<open>temperature_data\<close> is a list that is appended to; \<^verbatim>\<open>detailed_data\<close> is a dictionary,
  here an association list in insertion order. An exception of the fetcher leaves the
  loop and the pipeline.
\<close>

fun fetch_loop ::
  "(coordinate \<times> response) list \<Rightarrow> location_summary list \<Rightarrow> (string \<times> frame) list \<Rightarrow>
   error + (location_summary list \<times> (string \<times> frame) list)" where
  "fetch_loop [] temperature_data detailed_data = Inr (temperature_data, detailed_data)"
| "fetch_loop ((coord, resp) # rest) temperature_data detailed_data =
     (case get_historical_temperature resp (latitude coord) (longitude coord) of
        Inl e \<Rightarrow> Inl e
      | Inr None \<Rightarrow> fetch_loop rest temperature_data detailed_data
      | Inr (Some df) \<Rightarrow>
          fetch_loop rest
            (temperature_data @
               [\<lparr>lat = latitude coord, lng = longitude coord,
                 avg_temp = series_mean (map temperature_mean df),
                 loc_aim_id = aim_id coord, loc_address = address coord\<rparr>])
            (AList.update (aim_id coord) df detailed_data))"

text \<open>
  \<^verbatim>\<open>process_temperature_pipeline\<close>, lines 276 to 310. The three clock readings are those
  of \<^verbatim>\<open>create_heatmap\<close>, \<^verbatim>\<open>create_trend_plots\<close> and \<^verbatim>\<open>save_temperature_data\<close>, in the
  order of the calls. An exception of the loop or of \<^verbatim>\<open>create_heatmap\<close> comes before
  any write; one of a later exporter leaves the files written before it.
\<close>

definition process_temperature_pipeline ::
  "config \<Rightarrow> (coordinate \<times> response) list \<Rightarrow> datetime \<Rightarrow> datetime \<Rightarrow> datetime \<Rightarrow>
   outcome" where
  "process_temperature_pipeline config inputs t_heatmap t_plots t_save =
     (let output_path = config_output_path config
      in case fetch_loop inputs [] [] of
           Inl e \<Rightarrow> ([], Some e)
         | Inr (temperature_data, detailed_data) \<Rightarrow>
             if temperature_data \<noteq> [] then
               (case create_heatmap temperature_data output_path t_heatmap of
                  Inl e \<Rightarrow> ([], Some e)
                | Inr heatmap_file \<Rightarrow>
                    (case create_trend_plots detailed_data output_path t_plots of
                       (plots, Some e) \<Rightarrow> (heatmap_file # plots, Some e)
                     | (plots, None) \<Rightarrow>
                         (case save_temperature_data temperature_data detailed_data
                                 output_path t_save of
                            (tables, r) \<Rightarrow> (heatmap_file # plots @ tables, r))))
             else ([], None))"

subsection \<open>The loop, read as a whole\<close>

text \<open>
  Views of a run of the loop used to state its properties: the fetch of one location,
  the first exception a run meets, the locations fetched with their frames, and what
  the loop body appends and stores for one of them.
\<close>

definition fetch :: "coordinate \<times> response \<Rightarrow> error + frame option" where
  "fetch x = get_historical_temperature (snd x) (latitude (fst x)) (longitude (fst x))"

fun first_raise :: "(coordinate \<times> response) list \<Rightarrow> error option" where
  "first_raise [] = None"
| "first_raise (x # rest) = (case fetch x of Inl e \<Rightarrow> Some e | Inr _ \<Rightarrow> first_raise rest)"

definition fetched :: "(coordinate \<times> response) list \<Rightarrow> (coordinate \<times> frame) list" where
  "fetched inputs =
     List.map_filter (\<lambda>x. case fetch x of Inr (Some df) \<Rightarrow> Some (fst x, df) | _ \<Rightarrow> None) inputs"

definition fetch_succeeded :: "coordinate \<times> response \<Rightarrow> bool" where
  "fetch_succeeded x = (case fetch x of Inr (Some df) \<Rightarrow> True | _ \<Rightarrow> False)"

definition summary_of :: "coordinate \<times> frame \<Rightarrow> location_summary" where
  "summary_of x =
     \<lparr>lat = latitude (fst x), lng = longitude (fst x),
      avg_temp = series_mean (map temperature_mean (snd x)),
      loc_aim_id = aim_id (fst x), loc_address = address (fst x)\<rparr>"

definition store :: "coordinate \<times> frame \<Rightarrow> (string \<times> frame) list \<Rightarrow> (string \<times> frame) list" where
  "store x dd = AList.update (aim_id (fst x)) (snd x) dd"

subsection \<open>What a run leaves on disk\<close>

text \<open>The files a run has written when it ends, and the exception that ended it.\<close>

definition files_written :: "outcome \<Rightarrow> written_file list" where
  "files_written r = fst r"

definition raised :: "outcome \<Rightarrow> error option" where
  "raised r = snd r"

text \<open>
  Lines 307 to 310, the exports of a run whose loop has ended with the given
  \<^verbatim>\<open>temperature_data\<close> and \<^verbatim>\<open>detailed_data\<close>.
\<close>

definition export_all ::
  "location_summary list \<Rightarrow> (string \<times> frame) list \<Rightarrow> string \<Rightarrow>
   datetime \<Rightarrow> datetime \<Rightarrow> datetime \<Rightarrow> outcome" where
  "export_all temperature_data detailed_data output_path t_heatmap t_plots t_save =
     (if temperature_data \<noteq> [] then
        (case create_heatmap temperature_data output_path t_heatmap of
           Inl e \<Rightarrow> ([], Some e)
         | Inr heatmap_file \<Rightarrow>
             (case create_trend_plots detailed_data output_path t_plots of
                (plots, Some e) \<Rightarrow> (heatmap_file # plots, Some e)
              | (plots, None) \<Rightarrow>
                  (case save_temperature_data temperature_data detailed_data output_path t_save of
                     (tables, r) \<Rightarrow> (heatmap_file # plots @ tables, r))))
      else ([], None))"

text \<open>The values of a frame's \<^verbatim>\<open>temperature_mean\<close> column that are not missing.\<close>

definition temperature_means :: "frame \<Rightarrow> rat list" where
  "temperature_means df = map the (filter (\<lambda>v. v \<noteq> None) (map temperature_mean df))"

fun is_detail_csv :: "written_file \<Rightarrow> bool" where
  "is_detail_csv (p, DetailCsv rows) = True"
| "is_detail_csv (p, c) = False"

definition detail_csvs :: "written_file list \<Rightarrow> written_file list" where
  "detail_csvs fs = filter is_detail_csv fs"

fun summary_aim_ids :: "written_file \<Rightarrow> string list" where
  "summary_aim_ids (p, SummaryJson s) = map loc_aim_id s"
| "summary_aim_ids (p, c) = []"

fun heat_maps :: "written_file list \<Rightarrow> heat_map list" where
  "heat_maps [] = []"
| "heat_maps ((p, HeatmapHtml m) # fs) = m # heat_maps fs"
| "heat_maps ((p, c) # fs) = heat_maps fs"

definition arithmetic_mean :: "rat list \<Rightarrow> rat" where
  "arithmetic_mean xs = sum_list xs / of_nat (length xs)"

subsection \<open>Sample inputs\<close>

definition sample_config :: config where
  "sample_config = [''directories'' \<mapsto> [''temperature_output'' \<mapsto> ''out'']]"

definition sample_now :: datetime where
  "sample_now = \<lparr>dt_year = 2024, dt_month = 5, dt_day = 17,
                  dt_hour = 9, dt_minute = 30, dt_second = 7, dt_microsecond = 250000\<rparr>"

definition sample_same_second :: datetime where
  "sample_same_second = sample_now\<lparr>dt_microsecond := 900000\<rparr>"

definition sample_later :: datetime where
  "sample_later = sample_now\<lparr>dt_second := 8\<rparr>"

definition aim_1 :: coordinate where
  "aim_1 = \<lparr>aim_id = ''Aim 1'', address = ''Ouseburn Road'', latitude = 55, longitude = - 3 / 2\<rparr>"

definition aim_2 :: coordinate where
  "aim_2 = \<lparr>aim_id = ''Aim 2'', address = ''Grey Street'', latitude = 54, longitude = - 2\<rparr>"

definition aim_3 :: coordinate where
  "aim_3 = \<lparr>aim_id = ''Aim 3'', address = ''Quayside'', latitude = 56, longitude = - 1\<rparr>"

text \<open>Two January days, the later one first.\<close>

definition two_days :: daily_json where
  "two_days =
     \<lparr>time = Some [\<lparr>year = 2024, month = 1, day = 2\<rparr>, \<lparr>year = 2024, month = 1, day = 1\<rparr>],
      temperature_2m_max = Some [Some 5, Some 6],
      temperature_2m_min = Some [Some 1, None],
      temperature_2m_mean = Some [Some 3, Some 4],
      relative_humidity_2m_mean = Some [Some 80, Some 81],
      precipitation_sum = Some [Some 0, Some 2]\<rparr>"

definition two_days_frame :: frame where
  "two_days_frame =
     [\<lparr>date = \<lparr>year = 2024, month = 1, day = 2\<rparr>, temperature_max = Some 5,
       temperature_min = Some 1, temperature_mean = Some 3, humidity = Some 80,
       precipitation = Some 0\<rparr>,
      \<lparr>date = \<lparr>year = 2024, month = 1, day = 1\<rparr>, temperature_max = Some 6,
       temperature_min = None, temperature_mean = Some 4, humidity = Some 81,
       precipitation = Some 2\<rparr>]"

text \<open>Three July days, the temperature mean of the second missing.\<close>

definition three_days :: daily_json where
  "three_days =
     \<lparr>time = Some [\<lparr>year = 2024, month = 7, day = 1\<rparr>, \<lparr>year = 2024, month = 7, day = 2\<rparr>,
                  \<lparr>year = 2024, month = 7, day = 3\<rparr>],
      temperature_2m_max = Some [Some 20, Some 21, Some 25],
      temperature_2m_min = Some [Some 10, Some 11, Some 12],
      temperature_2m_mean = Some [Some 15, None, Some 18],
      relative_humidity_2m_mean = Some [Some 70, Some 71, Some 72],
      precipitation_sum = Some [Some 0, Some 0, Some 1]\<rparr>"

definition three_days_frame :: frame where
  "three_days_frame =
     [\<lparr>date = \<lparr>year = 2024, month = 7, day = 1\<rparr>, temperature_max = Some 20,
       temperature_min = Some 10, temperature_mean = Some 15, humidity = Some 70,
       precipitation = Some 0\<rparr>,
      \<lparr>date = \<lparr>year = 2024, month = 7, day = 2\<rparr>, temperature_max = Some 21,
       temperature_min = Some 11, temperature_mean = None, humidity = Some 71,
       precipitation = Some 0\<rparr>,
      \<lparr>date = \<lparr>year = 2024, month = 7, day = 3\<rparr>, temperature_max = Some 25,
       temperature_min = Some 12, temperature_mean = Some 18, humidity = Some 72,
       precipitation = Some 1\<rparr>]"

text \<open>A \<^verbatim>\<open>daily\<close> object whose arrays are all empty.\<close>

definition no_days :: daily_json where
  "no_days =
     \<lparr>time = Some [], temperature_2m_max = Some [], temperature_2m_min = Some [],
      temperature_2m_mean = Some [], relative_humidity_2m_mean = Some [],
      precipitation_sum = Some []\<rparr>"

text \<open>The name of a per-location detail table, line 150.\<close>

definition detail_name :: "string \<Rightarrow> string \<Rightarrow> string" where
  "detail_name a ts = ''temperature_data_'' @ a @ ''_'' @ ts @ ''.csv''"

subsection \<open>File names and timestamps\<close>

text \<open>\<^verbatim>\<open>str.endswith\<close>.\<close>

definition endswith :: "string \<Rightarrow> string \<Rightarrow> bool" where
  "endswith s suffix \<longleftrightarrow>
     length suffix \<le> length s \<and> drop (length s - length suffix) s = suffix"

text \<open>
  The timestamp and the extension of the files of each exporter: the heat map, the
  figures, and the summary and the tables of \<^verbatim>\<open>save_temperature_data\<close>.
\<close>

definition stamps :: "datetime \<Rightarrow> datetime \<Rightarrow> datetime \<Rightarrow> (string \<times> string) list" where
  "stamps t_heatmap t_plots t_save =
     [(strftime t_heatmap, ''.html''), (strftime t_plots, ''.png''),
      (strftime t_save, ''.json''), (strftime t_save, ''.csv'')]"

definition paths_written ::
  "config \<Rightarrow> (coordinate \<times> response) list \<Rightarrow> datetime \<Rightarrow> datetime \<Rightarrow> datetime \<Rightarrow>
   string list" where
  "paths_written config inputs t_heatmap t_plots t_save =
     map fst (files_written (process_temperature_pipeline config inputs t_heatmap t_plots t_save))"

text \<open>The extensions of the files written.\<close>

definition extensions :: "string set" where
  "extensions = {''.html'', ''.png'', ''.json'', ''.csv''}"

subsection \<open>The seasons of a frame\<close>




subsection \<open>The files of a run that completes\<close>

text \<open>
  The files the exporters write, named one by one: they state what a run has written.
\<close>

definition trends_name :: "string \<Rightarrow> string \<Rightarrow> string" where
  "trends_name a ts = ''temperature_trends_'' @ a @ ''_'' @ ts @ ''.png''"

definition separator_free :: "string \<times> frame \<Rightarrow> bool" where
  "separator_free x \<longleftrightarrow> CHR ''/'' \<notin> set (fst x)"

definition heatmap_file :: "location_summary list \<Rightarrow> string \<Rightarrow> datetime \<Rightarrow> written_file" where
  "heatmap_file td out t =
     (os_path_join out (''temperature_heatmap_'' @ strftime t @ ''.html''),
      HeatmapHtml \<lparr>location = (arithmetic_mean (map lat td), arithmetic_mean (map lng td)),
                   heatmap_data = map (\<lambda>d. (lat d, lng d, the (avg_temp d))) td\<rparr>)"

definition plot_file :: "string \<Rightarrow> datetime \<Rightarrow> string \<times> frame \<Rightarrow> written_file" where
  "plot_file out t x = (os_path_join out (trends_name (fst x) (strftime t)), TrendsPng (snd x))"

definition csv_file ::
  "location_summary list \<Rightarrow> string \<Rightarrow> datetime \<Rightarrow> string \<times> frame \<Rightarrow> written_file" where
  "csv_file td out t x =
     (os_path_join out (detail_name (fst x) (strftime t)), DetailCsv (annotate td (fst x) (snd x)))"

definition summary_file :: "location_summary list \<Rightarrow> string \<Rightarrow> datetime \<Rightarrow> written_file" where
  "summary_file td out t =
     (os_path_join out (''temperature_summary_'' @ strftime t @ ''.json''), SummaryJson td)"

definition statistics_file ::
  "location_summary list \<Rightarrow> (string \<times> frame) list \<Rightarrow> string \<Rightarrow> datetime \<Rightarrow> written_file" where
  "statistics_file td dd out t =
     (os_path_join out (''temperature_statistics_'' @ strftime t @ ''.csv''),
      StatisticsCsv (map (\<lambda>(a, df). stats_dict td a (annotate td a df)) dd))"

subsection \<open>The statistics of a season\<close>







section \<open>Properties\<close>

subsection \<open>Month to season\<close>

lemma season_of_month_cases:
  "season_of_month m =
     (if m \<in> {12, 1, 2} then Some ''Winter''
      else if m \<in> {3, 4, 5} then Some ''Spring''
      else if m \<in> {6, 7, 8} then Some ''Summer''
      else if m \<in> {9, 10, 11} then Some ''Autumn''
      else None)"
  by (simp add: season_of_month_def season_map_def)

lemma season_of_month_defined: "season_of_month m \<noteq> None \<longleftrightarrow> 1 \<le> m \<and> m \<le> 12"
  unfolding season_of_month_cases by (simp, arith)

text \<open>
  Claim C2. The month-to-season mapping is defined on exactly the months 1 to 12, and
  the months mapped to each season are: December, January, February to Winter; March,
  April, May to Spring; June, July, August to Summer; September, October, November to
  Autumn. No other season name is produced, so the four groups of three months
  partition the twelve months.
\<close>

theorem season_of_month_partition:
  "dom season_of_month = {1..12} \<and>
   {m. season_of_month m = Some ''Winter''} = {12, 1, 2} \<and>
   {m. season_of_month m = Some ''Spring''} = {3, 4, 5} \<and>
   {m. season_of_month m = Some ''Summer''} = {6, 7, 8} \<and>
   {m. season_of_month m = Some ''Autumn''} = {9, 10, 11} \<and>
   ran season_of_month = {''Winter'', ''Spring'', ''Summer'', ''Autumn''}"
proof -
  have d: "dom season_of_month = {1..12}"
    using season_of_month_defined by (auto simp: dom_def)
  have w: "{m. season_of_month m = Some ''Winter''} = {12, 1, 2}"
    unfolding season_of_month_cases by (auto split: if_splits)
  have sp: "{m. season_of_month m = Some ''Spring''} = {3, 4, 5}"
    unfolding season_of_month_cases by (auto split: if_splits)
  have su: "{m. season_of_month m = Some ''Summer''} = {6, 7, 8}"
    unfolding season_of_month_cases by (auto split: if_splits)
  have au: "{m. season_of_month m = Some ''Autumn''} = {9, 10, 11}"
    unfolding season_of_month_cases by (auto split: if_splits)
  have r: "ran season_of_month = {''Winter'', ''Spring'', ''Summer'', ''Autumn''}"
  proof
    show "ran season_of_month \<subseteq> {''Winter'', ''Spring'', ''Summer'', ''Autumn''}"
    proof
      fix s assume "s \<in> ran season_of_month"
      then obtain m where "season_of_month m = Some s" by (auto simp: ran_def)
      then show "s \<in> {''Winter'', ''Spring'', ''Summer'', ''Autumn''}"
        unfolding season_of_month_cases by (simp split: if_splits)
    qed
  next
    have "season_of_month 1 = Some ''Winter''" "season_of_month 3 = Some ''Spring''"
         "season_of_month 6 = Some ''Summer''" "season_of_month 9 = Some ''Autumn''"
      by (simp_all add: season_of_month_cases)
    then show "{''Winter'', ''Spring'', ''Summer'', ''Autumn''} \<subseteq> ran season_of_month"
      by (simp add: ranI)
  qed
  from d w sp su au r show ?thesis by (intro conjI)
qed

subsection \<open>The loop\<close>

lemma fetched_Nil [simp]: "fetched [] = []"
  by (simp add: fetched_def List.map_filter_simps)

lemma fetched_Cons:
  "fetched (x # rest) =
     (case fetch x of Inr (Some df) \<Rightarrow> (fst x, df) # fetched rest | _ \<Rightarrow> fetched rest)"
  by (simp add: fetched_def List.map_filter_simps split: sum.splits option.splits)

lemma fetch_loop_eq:
  "fetch_loop inputs td dd =
     (case first_raise inputs of
        Some e \<Rightarrow> Inl e
      | None \<Rightarrow> Inr (td @ map summary_of (fetched inputs), fold store (fetched inputs) dd))"
proof (induction inputs arbitrary: td dd)
  case Nil
  then show ?case by simp
next
  case (Cons x rest)
  obtain c r where x: "x = (c, r)" by (cases x)
  show ?case
  proof (cases "fetch x")
    case (Inl e)
    then show ?thesis using x by (simp add: fetch_def)
  next
    case (Inr v)
    show ?thesis
    proof (cases v)
      case None
      have step: "fetch_loop (x # rest) td dd = fetch_loop rest td dd"
        using Inr None x by (simp add: fetch_def)
      have f: "fetched (x # rest) = fetched rest"
        using Inr None by (simp add: fetched_Cons)
      have g: "first_raise (x # rest) = first_raise rest"
        using Inr by simp
      show ?thesis unfolding step f g by (rule Cons.IH)
    next
      case (Some df)
      have step: "fetch_loop (x # rest) td dd =
                  fetch_loop rest (td @ [summary_of (fst x, df)]) (store (fst x, df) dd)"
        using Inr Some x by (simp add: fetch_def summary_of_def store_def)
      have f: "fetched (x # rest) = (fst x, df) # fetched rest"
        using Inr Some by (simp add: fetched_Cons)
      have g: "first_raise (x # rest) = first_raise rest"
        using Inr by simp
      show ?thesis unfolding step f g Cons.IH by (simp split: option.splits)
    qed
  qed
qed

lemma update_fresh: "k \<notin> fst ` set al \<Longrightarrow> AList.update k v al = al @ [(k, v)]"
  by (induction al) auto

lemma fold_store_distinct:
  "distinct (map (\<lambda>x. aim_id (fst x)) xs) \<Longrightarrow>
   (\<lambda>x. aim_id (fst x)) ` set xs \<inter> fst ` set dd = {} \<Longrightarrow>
   fold store xs dd = dd @ map (\<lambda>x. (aim_id (fst x), snd x)) xs"
proof (induction xs arbitrary: dd)
  case Nil
  then show ?case by simp
next
  case (Cons x xs)
  have notin: "aim_id (fst x) \<notin> fst ` set dd" using Cons.prems(2) by auto
  then have upd: "store x dd = dd @ [(aim_id (fst x), snd x)]"
    by (simp add: store_def update_fresh)
  have d: "distinct (map (\<lambda>x. aim_id (fst x)) xs)" using Cons.prems(1) by simp
  have fresh: "(\<lambda>x. aim_id (fst x)) ` set xs \<inter> fst ` set (dd @ [(aim_id (fst x), snd x)]) = {}"
    using Cons.prems by auto
  show ?case using Cons.IH [OF d fresh] upd by simp
qed

lemma fetched_mem: "(c, df) \<in> set (fetched inputs) \<Longrightarrow> \<exists>r. (c, r) \<in> set inputs"
  by (induction inputs) (auto simp: fetched_Cons split: sum.splits option.splits)

lemma fetched_distinct:
  "distinct (map (\<lambda>x. aim_id (fst x)) inputs) \<Longrightarrow>
   distinct (map (\<lambda>x. aim_id (fst x)) (fetched inputs))"
proof (induction inputs)
  case Nil
  then show ?case by simp
next
  case (Cons x rest)
  have "aim_id (fst x) \<notin> (\<lambda>x. aim_id (fst x)) ` set (fetched rest)"
  proof
    assume "aim_id (fst x) \<in> (\<lambda>x. aim_id (fst x)) ` set (fetched rest)"
    then obtain c df where m: "(c, df) \<in> set (fetched rest)" and e: "aim_id (fst x) = aim_id c"
      by auto
    from fetched_mem [OF m] obtain r where "(c, r) \<in> set rest" ..
    then have "aim_id c \<in> (\<lambda>x. aim_id (fst x)) ` set rest" by force
    with e Cons.prems show False by simp
  qed
  with Cons show ?case by (auto simp: fetched_Cons split: sum.splits option.splits)
qed

subsection \<open>The sample fetches\<close>

lemma fetch_no_daily: "fetch (c, Json None) = Inr None"
  by (simp add: fetch_def get_historical_temperature_def)

lemma fetch_request_raises: "fetch (c, RequestRaises) = Inl ConnectionError"
  by (simp add: fetch_def get_historical_temperature_def)

lemma fetch_two_days: "fetch (c, Json (Some two_days)) = Inr (Some two_days_frame)"
  by (simp add: fetch_def get_historical_temperature_def two_days_def two_days_frame_def
        and_then_def getitem_def DataFrame_def upt_rec)

lemma fetch_no_days: "fetch (c, Json (Some no_days)) = Inr (Some [])"
  by (simp add: fetch_def get_historical_temperature_def no_days_def and_then_def getitem_def
        DataFrame_def)

lemma fetch_three_days: "fetch (c, Json (Some three_days)) = Inr (Some three_days_frame)"
  by (simp add: fetch_def get_historical_temperature_def three_days_def three_days_frame_def
        and_then_def getitem_def DataFrame_def upt_rec)

subsection \<open>The order of the fetched records\<close>

lemma DataFrame_dates:
  "DataFrame t mx mn me h p = Inr df \<Longrightarrow> map date df = t \<and> length df = length t"
  by (auto simp: DataFrame_def comp_def map_nth split: if_splits)

text \<open>
  Claim C8, as stated, fails: the fetcher does not sort. For a response whose
  \<^verbatim>\<open>daily\<close> object lists 2 January before 1 January, the records come in that order.
\<close>

theorem response_order_is_kept_descending:
  "get_historical_temperature (Json (Some two_days)) 55 (- 3 / 2) = Inr (Some two_days_frame) \<and>
   \<not> date_ascending (map date two_days_frame)"
  using fetch_two_days [of aim_1]
  by (simp add: fetch_def aim_1_def two_days_frame_def date_ascending_def date_le_def)

text \<open>
  Claim C8, amended. For every response whose \<^verbatim>\<open>daily\<close> object holds the six arrays, all
  of one length, the fetcher produces one record per entry, in the order of the
  response's \<^verbatim>\<open>time\<close> array: the sequence is ordered by date ascending exactly when that
  array is.
\<close>

theorem fetcher_keeps_response_order:
  assumes "time daily = Some t"
    and "temperature_2m_max daily = Some mx" and "length mx = length t"
    and "temperature_2m_min daily = Some mn" and "length mn = length t"
    and "temperature_2m_mean daily = Some me" and "length me = length t"
    and "relative_humidity_2m_mean daily = Some h" and "length h = length t"
    and "precipitation_sum daily = Some p" and "length p = length t"
  shows "\<exists>df. get_historical_temperature (Json (Some daily)) la lo = Inr (Some df) \<and>
              map date df = t \<and>
              (date_ascending (map date df) \<longleftrightarrow> date_ascending t)"
proof -
  obtain df where df: "DataFrame t mx mn me h p = Inr df"
    using assms by (simp add: DataFrame_def)
  then have "map date df = t" by (simp add: DataFrame_dates)
  moreover have "get_historical_temperature (Json (Some daily)) la lo = Inr (Some df)"
    using assms df by (simp add: get_historical_temperature_def and_then_def getitem_def)
  ultimately show ?thesis by simp
qed

theorem fetcher_keeps_response_order_witness:
  "get_historical_temperature (Json (Some two_days)) 55 (- 3 / 2) = Inr (Some two_days_frame) \<and>
   map date two_days_frame =
     [\<lparr>year = 2024, month = 1, day = 2\<rparr>, \<lparr>year = 2024, month = 1, day = 1\<rparr>]"
proof -
  from fetcher_keeps_response_order [of two_days
      "[\<lparr>year = 2024, month = 1, day = 2\<rparr>, \<lparr>year = 2024, month = 1, day = 1\<rparr>]"
      "[Some 5, Some 6]" "[Some 1, None]" "[Some 3, Some 4]" "[Some 80, Some 81]"
      "[Some 0, Some 2]" 55 "- 3 / 2"]
  obtain df where
    "get_historical_temperature (Json (Some two_days)) 55 (- 3 / 2) = Inr (Some df)"
    "map date df = [\<lparr>year = 2024, month = 1, day = 2\<rparr>, \<lparr>year = 2024, month = 1, day = 1\<rparr>]"
    by (auto simp: two_days_def)
  moreover have "get_historical_temperature (Json (Some two_days)) 55 (- 3 / 2)
                   = Inr (Some two_days_frame)"
    using fetch_two_days [of aim_1] by (simp add: fetch_def aim_1_def)
  ultimately show ?thesis by simp
qed

subsection \<open>Timestamps\<close>

lemma digit_code: "d < 10 \<Longrightarrow> of_char (digit d) = (48 + d :: nat)"
proof -
  assume "d < 10"
  then have "d = 0 \<or> d = 1 \<or> d = 2 \<or> d = 3 \<or> d = 4 \<or> d = 5 \<or> d = 6 \<or> d = 7 \<or> d = 8 \<or> d = 9"
    by arith
  then show ?thesis by (auto simp: digit_def)
qed

lemma digit_inj: "d < 10 \<Longrightarrow> e < 10 \<Longrightarrow> digit d = digit e \<Longrightarrow> d = e"
proof -
  assume d: "d < 10" and e: "e < 10" and eq: "digit d = digit e"
  have "(48 + d :: nat) = of_char (digit d)" using d by (simp add: digit_code)
  also have "\<dots> = of_char (digit e)" using eq by simp
  also have "\<dots> = 48 + e" using e by (simp add: digit_code)
  finally show "d = e" by simp
qed

lemma pad2_inj: "n < 100 \<Longrightarrow> m < 100 \<Longrightarrow> pad2 n = pad2 m \<Longrightarrow> n = m"
proof -
  assume n: "n < 100" and m: "m < 100" and eq: "pad2 n = pad2 m"
  from eq have e1: "digit (n div 10 mod 10) = digit (m div 10 mod 10)"
    and e0: "digit (n mod 10) = digit (m mod 10)"
    by (simp_all add: pad2_def)
  have d1: "n div 10 mod 10 = m div 10 mod 10"
    by (rule digit_inj [OF _ _ e1]) simp_all
  have d0: "n mod 10 = m mod 10"
    by (rule digit_inj [OF _ _ e0]) simp_all
  have "n div 10 < 10" "m div 10 < 10" using n m by simp_all
  with d1 have "n div 10 = m div 10" by simp
  with d0 show "n = m" by (metis div_mult_mod_eq)
qed

lemma pad4_inj: "n < 10000 \<Longrightarrow> m < 10000 \<Longrightarrow> pad4 n = pad4 m \<Longrightarrow> n = m"
proof -
  assume n: "n < 10000" and m: "m < 10000" and eq: "pad4 n = pad4 m"
  from eq have e3: "digit (n div 1000 mod 10) = digit (m div 1000 mod 10)"
    and e2: "digit (n div 100 mod 10) = digit (m div 100 mod 10)"
    and e1: "digit (n div 10 mod 10) = digit (m div 10 mod 10)"
    and e0: "digit (n mod 10) = digit (m mod 10)"
    by (simp_all add: pad4_def)
  have d3: "n div 1000 mod 10 = m div 1000 mod 10"
    by (rule digit_inj [OF _ _ e3]) simp_all
  have d2: "n div 100 mod 10 = m div 100 mod 10"
    by (rule digit_inj [OF _ _ e2]) simp_all
  have d1: "n div 10 mod 10 = m div 10 mod 10"
    by (rule digit_inj [OF _ _ e1]) simp_all
  have d0: "n mod 10 = m mod 10"
    by (rule digit_inj [OF _ _ e0]) simp_all
  have "n div 1000 < 10" "m div 1000 < 10" using n m by simp_all
  with d3 have q3: "n div 1000 = m div 1000" by simp
  have s2: "k div 100 div 10 = k div 1000" for k :: nat by (simp add: div_mult2_eq [symmetric])
  have s1: "k div 10 div 10 = k div 100" for k :: nat by (simp add: div_mult2_eq [symmetric])
  have "n div 100 = m div 100"
    using q3 d2 s2 by (metis div_mult_mod_eq)
  then have "n div 10 = m div 10"
    using d1 s1 by (metis div_mult_mod_eq)
  with d0 show "n = m" by (metis div_mult_mod_eq)
qed

lemma length_strftime: "length (strftime t) = 15"
  by (simp add: strftime_def pad2_def pad4_def)

lemma strftime_same_second: "same_second a b \<Longrightarrow> strftime a = strftime b"
  by (simp add: same_second_def strftime_def)

lemma strftime_parts:
  "strftime a = strftime b \<Longrightarrow>
   pad4 (dt_year a) = pad4 (dt_year b) \<and> pad2 (dt_month a) = pad2 (dt_month b) \<and>
   pad2 (dt_day a) = pad2 (dt_day b) \<and> pad2 (dt_hour a) = pad2 (dt_hour b) \<and>
   pad2 (dt_minute a) = pad2 (dt_minute b) \<and> pad2 (dt_second a) = pad2 (dt_second b)"
  by (simp add: strftime_def pad2_def pad4_def)

lemma strftime_inj:
  assumes a: "valid_datetime a" and b: "valid_datetime b" and eq: "strftime a = strftime b"
  shows "same_second a b"
proof -
  note p = strftime_parts [OF eq]
  have "dt_year a = dt_year b"
    using a b p by (intro pad4_inj) (simp_all add: valid_datetime_def)
  moreover have "dt_month a = dt_month b"
    using a b p by (intro pad2_inj) (simp_all add: valid_datetime_def)
  moreover have "dt_day a = dt_day b"
    using a b p by (intro pad2_inj) (simp_all add: valid_datetime_def)
  moreover have "dt_hour a = dt_hour b"
    using a b p by (intro pad2_inj) (simp_all add: valid_datetime_def)
  moreover have "dt_minute a = dt_minute b"
    using a b p by (intro pad2_inj) (simp_all add: valid_datetime_def)
  moreover have "dt_second a = dt_second b"
    using a b p by (intro pad2_inj) (simp_all add: valid_datetime_def)
  ultimately show ?thesis by (simp add: same_second_def)
qed

subsection \<open>The exporters and the pipeline in closed form\<close>

lemma digit_not_separator: "d < 10 \<Longrightarrow> digit d \<noteq> CHR ''/''"
proof
  assume d: "d < 10" and eq: "digit d = CHR ''/''"
  have "of_char (digit d) = (48 + d :: nat)" using d by (rule digit_code)
  with eq show False by simp
qed

lemma strftime_no_separator: "CHR ''/'' \<notin> set (strftime t)"
proof -
  have "digit (n mod 10) \<noteq> CHR ''/''" for n by (rule digit_not_separator) simp
  then have "CHR ''/'' \<noteq> digit (n mod 10)" for n by (rule not_sym)
  then show ?thesis by (simp add: strftime_def pad2_def pad4_def)
qed

lemma open_trends:
  "open_for_writing out (''temperature_trends_'' @ a @ ''_'' @ strftime t @ ''.png'') =
     (if CHR ''/'' \<in> set a then Inl FileNotFoundError
      else Inr (os_path_join out (trends_name a (strftime t))))"
  by (simp add: open_for_writing_def trends_name_def strftime_no_separator)

lemma open_detail:
  "open_for_writing out (''temperature_data_'' @ a @ ''_'' @ strftime t @ ''.csv'') =
     (if CHR ''/'' \<in> set a then Inl FileNotFoundError
      else Inr (os_path_join out (detail_name a (strftime t))))"
  by (simp add: open_for_writing_def detail_name_def strftime_no_separator)

lemma plot_each_eq:
  "plot_each out (strftime t) dd =
     (map (plot_file out t) (takeWhile separator_free dd),
      if list_all separator_free dd then None else Some FileNotFoundError)"
proof (induction dd)
  case Nil
  then show ?case by simp
next
  case (Cons x dd)
  obtain a df where x: "x = (a, df)" by (cases x)
  show ?case
    unfolding x plot_each.simps open_trends
    using Cons by (simp add: separator_free_def plot_file_def)
qed

lemma csv_each_eq:
  "csv_each td out (strftime t) dd =
     (map (csv_file td out t) (takeWhile separator_free dd),
      if list_all separator_free dd then None else Some FileNotFoundError)"
proof (induction dd)
  case Nil
  then show ?case by simp
next
  case (Cons x dd)
  obtain a df where x: "x = (a, df)" by (cases x)
  show ?case
    unfolding x csv_each.simps open_detail
    using Cons by (simp add: separator_free_def csv_file_def)
qed

lemma takeWhile_all: "list_all P xs \<Longrightarrow> takeWhile P xs = xs"
  by (induction xs) simp_all

lemma create_heatmap_eq:
  "create_heatmap td out t =
     (if td = [] then Inl ZeroDivisionError
      else if list_ex (\<lambda>d. avg_temp d = None) td then Inl ValueError
      else Inr (heatmap_file td out t))"
  by (simp add: create_heatmap_def heatmap_file_def arithmetic_mean_def Let_def)

lemma save_temperature_data_eq:
  "save_temperature_data td dd out t =
     (if list_all separator_free dd
      then (summary_file td out t # map (csv_file td out t) dd @ [statistics_file td dd out t], None)
      else (summary_file td out t # map (csv_file td out t) (takeWhile separator_free dd),
            Some FileNotFoundError))"
  by (simp add: save_temperature_data_def Let_def csv_each_eq summary_file_def
        statistics_file_def takeWhile_all)

lemma export_all_eq:
  "export_all td dd out t1 t2 t3 =
     (if td = [] then ([], None)
      else if list_ex (\<lambda>d. avg_temp d = None) td then ([], Some ValueError)
      else if \<not> list_all separator_free dd
        then (heatmap_file td out t1 # map (plot_file out t2) (takeWhile separator_free dd),
              Some FileNotFoundError)
      else (heatmap_file td out t1 # map (plot_file out t2) dd @
              summary_file td out t3 # map (csv_file td out t3) dd @
              [statistics_file td dd out t3],
            None))"
  by (simp add: export_all_def create_heatmap_eq create_trend_plots_def plot_each_eq
        save_temperature_data_eq takeWhile_all)

lemma pipeline_eq:
  "process_temperature_pipeline config inputs t1 t2 t3 =
     (case first_raise inputs of
        Some e \<Rightarrow> ([], Some e)
      | None \<Rightarrow>
          export_all (map summary_of (fetched inputs)) (fold store (fetched inputs) [])
            (config_output_path config) t1 t2 t3)"
  by (simp add: process_temperature_pipeline_def export_all_def fetch_loop_eq Let_def
        split: option.splits)

subsection \<open>Fetches that raise, succeed or are skipped\<close>

lemma first_raise_None_iff: "first_raise inputs = None \<longleftrightarrow> (\<forall>x\<in>set inputs. \<not> isl (fetch x))"
  by (induction inputs) (auto split: sum.splits)

lemma first_raise_not_zero_division: "first_raise inputs \<noteq> Some ZeroDivisionError"
proof (induction inputs)
  case Nil
  then show ?case by simp
next
  case (Cons x rest)
  have "fetch x \<noteq> Inl ZeroDivisionError"
    by (auto simp: fetch_def get_historical_temperature_def and_then_def getitem_def DataFrame_def
             split: response.splits option.splits if_splits)
  with Cons show ?case by (auto split: sum.splits)
qed

lemma fetched_eq_filter:
  "first_raise inputs = None \<Longrightarrow>
   map fst (fetched inputs) = map fst (filter (\<lambda>x. fetch x \<noteq> Inr None) inputs)"
proof (induction inputs)
  case Nil
  then show ?case by simp
next
  case (Cons x rest)
  then show ?case by (cases "fetch x") (auto simp: fetched_Cons split: option.splits)
qed

lemma fetched_length: "length (fetched inputs) = length (filter fetch_succeeded inputs)"
  by (induction inputs)
     (auto simp: fetched_Cons fetch_succeeded_def split: sum.splits option.splits)

lemma first_raise_skip:
  "first_raise (filter (\<lambda>x. snd x \<noteq> Json None) inputs) = first_raise inputs"
proof (induction inputs)
  case Nil
  then show ?case by simp
next
  case (Cons x rest)
  show ?case
  proof (cases "snd x = Json None")
    case True
    then have "fetch x = Inr None" using fetch_no_daily [of "fst x"] by (cases x) simp
    with True Cons show ?thesis by simp
  next
    case False
    with Cons show ?thesis by (simp split: sum.splits)
  qed
qed

lemma fetched_skip:
  "fetched (filter (\<lambda>x. snd x \<noteq> Json None) inputs) = fetched inputs"
proof (induction inputs)
  case Nil
  then show ?case by simp
next
  case (Cons x rest)
  show ?case
  proof (cases "snd x = Json None")
    case True
    then have "fetch x = Inr None" using fetch_no_daily [of "fst x"] by (cases x) simp
    with True Cons show ?thesis by (simp add: fetched_Cons)
  next
    case False
    with Cons show ?thesis by (simp add: fetched_Cons split: sum.splits option.splits)
  qed
qed

lemma os_path_join_relative:
  "b \<noteq> [] \<Longrightarrow> hd b \<noteq> CHR ''/'' \<Longrightarrow>
   os_path_join a b = (if a = [] \<or> last a = CHR ''/'' then a else a @ ''/'') @ b"
  by (simp add: os_path_join_def)

lemma os_path_join_inj:
  "b \<noteq> [] \<Longrightarrow> hd b \<noteq> CHR ''/'' \<Longrightarrow> b' \<noteq> [] \<Longrightarrow> hd b' \<noteq> CHR ''/'' \<Longrightarrow>
   os_path_join a b = os_path_join a b' \<longleftrightarrow> b = b'"
  by (simp add: os_path_join_relative)

lemma detail_name_inj: "detail_name a ts = detail_name a' ts \<longleftrightarrow> a = a'"
  by (simp add: detail_name_def)

subsection \<open>Runs that complete\<close>

lemma summary_of_avg: "avg_temp (summary_of x) = series_mean (map temperature_mean (snd x))"
  by (simp add: summary_of_def)

lemma no_fetch_no_export:
  "fetched inputs = [] \<Longrightarrow> files_written (process_temperature_pipeline config inputs t1 t2 t3) = []"
  by (simp add: pipeline_eq export_all_eq files_written_def split: option.splits)

lemma raised_cases:
  "raised (process_temperature_pipeline config inputs t1 t2 t3) = None \<longleftrightarrow>
   first_raise inputs = None \<and>
   (fetched inputs = [] \<or>
    (\<not> list_ex (\<lambda>d. avg_temp d = None) (map summary_of (fetched inputs)) \<and>
     list_all separator_free (fold store (fetched inputs) [])))"
  by (auto simp: pipeline_eq export_all_eq raised_def split: option.splits)

lemma completed_files:
  assumes "raised (process_temperature_pipeline config inputs t1 t2 t3) = None"
    and "fetched inputs \<noteq> []"
  shows "files_written (process_temperature_pipeline config inputs t1 t2 t3) =
     heatmap_file (map summary_of (fetched inputs)) (config_output_path config) t1 #
     map (plot_file (config_output_path config) t2) (fold store (fetched inputs) []) @
     summary_file (map summary_of (fetched inputs)) (config_output_path config) t3 #
     map (csv_file (map summary_of (fetched inputs)) (config_output_path config) t3)
       (fold store (fetched inputs) []) @
     [statistics_file (map summary_of (fetched inputs)) (fold store (fetched inputs) [])
        (config_output_path config) t3]"
  using assms
  by (auto simp: pipeline_eq export_all_eq raised_def files_written_def split: option.splits if_splits)

subsection \<open>The guard of the exports\<close>

text \<open>
  Claim C5. When no fetch returns a data frame, the pipeline writes no file at all: no
  heat map, no CSV, no JSON, no figure.
\<close>

theorem no_fetch_no_file:
  "(\<forall>x\<in>set inputs. \<forall>df. fetch x \<noteq> Inr (Some df)) \<Longrightarrow>
   files_written (process_temperature_pipeline config inputs t1 t2 t3) = []"
proof -
  assume no: "\<forall>x\<in>set inputs. \<forall>df. fetch x \<noteq> Inr (Some df)"
  have "fetched inputs = []"
    using no by (induction inputs) (auto simp: fetched_Cons split: sum.splits option.splits)
  then show ?thesis by (rule no_fetch_no_export)
qed

theorem no_fetch_no_file_witness:
  "fetch (aim_1, Json None) = Inr None \<and> fetch (aim_2, Json None) = Inr None \<and>
   files_written (process_temperature_pipeline sample_config [(aim_1, Json None), (aim_2, Json None)]
     sample_now sample_now sample_later) = [] \<and>
   raised (process_temperature_pipeline sample_config [(aim_1, Json None), (aim_2, Json None)]
     sample_now sample_now sample_later) = None"
proof -
  have h: "\<forall>x\<in>set [(aim_1, Json None), (aim_2, Json None)]. \<forall>df. fetch x \<noteq> Inr (Some df)"
    by (simp add: fetch_no_daily)
  have r: "raised (process_temperature_pipeline sample_config [(aim_1, Json None), (aim_2, Json None)]
     sample_now sample_now sample_later) = None"
    by (simp add: raised_cases fetch_no_daily fetched_Cons)
  from no_fetch_no_file [OF h, of sample_config sample_now sample_now sample_later] r
  show ?thesis by (simp add: fetch_no_daily)
qed

text \<open>
  Claim C10. \<^verbatim>\<open>create_heatmap\<close> divides by the length of its list: it raises
  \<^verbatim>\<open>ZeroDivisionError\<close> exactly when \<^verbatim>\<open>temperature_data\<close> is empty, so a non-empty list is
  its precondition. The pipeline calls it only under the guard that at least one fetch
  succeeded, and no run of the pipeline, on any input, ends in \<^verbatim>\<open>ZeroDivisionError\<close>.
\<close>

theorem heatmap_division_guarded:
  "(create_heatmap temperature_data output_path now = Inl ZeroDivisionError
      \<longleftrightarrow> temperature_data = []) \<and>
   raised (process_temperature_pipeline config inputs t1 t2 t3) \<noteq> Some ZeroDivisionError"
proof
  show "create_heatmap temperature_data output_path now = Inl ZeroDivisionError
          \<longleftrightarrow> temperature_data = []"
    by (simp add: create_heatmap_eq)
next
  show "raised (process_temperature_pipeline config inputs t1 t2 t3) \<noteq> Some ZeroDivisionError"
    using first_raise_not_zero_division [of inputs]
    by (auto simp: pipeline_eq export_all_eq raised_def split: option.splits)
qed

theorem heatmap_division_guarded_witness:
  "create_heatmap [] ''out'' sample_now = Inl ZeroDivisionError \<and>
   create_heatmap [summary_of (aim_1, two_days_frame)] ''out'' sample_now \<noteq> Inl ZeroDivisionError \<and>
   raised (process_temperature_pipeline sample_config [(aim_2, Json None)]
             sample_now sample_now sample_later) \<noteq> Some ZeroDivisionError"
  using heatmap_division_guarded [of "[]" "''out''" sample_now sample_config "[(aim_2, Json None)]"
          sample_now sample_now sample_later]
        heatmap_division_guarded [of "[summary_of (aim_1, two_days_frame)]" "''out''" sample_now
          sample_config "[(aim_2, Json None)]" sample_now sample_now sample_later]
  by simp

subsection \<open>Which fetches count as failed\<close>

lemma summary_ids_plots: "concat (map (\<lambda>x. summary_aim_ids (plot_file out t x)) dd) = []"
  by (induction dd) (simp_all add: plot_file_def)

lemma summary_ids_csvs: "concat (map (\<lambda>x. summary_aim_ids (csv_file td out t x)) dd) = []"
  by (induction dd) (simp_all add: csv_file_def)

lemma summary_ids_completed:
  assumes "raised (process_temperature_pipeline config inputs t1 t2 t3) = None"
  shows "concat (map summary_aim_ids
           (files_written (process_temperature_pipeline config inputs t1 t2 t3))) =
         map (\<lambda>x. aim_id (fst x)) (fetched inputs)"
proof (cases "fetched inputs = []")
  case True
  then show ?thesis by (simp add: no_fetch_no_export)
next
  case False
  show ?thesis
    unfolding completed_files [OF assms False]
    by (simp add: summary_ids_plots summary_ids_csvs heatmap_file_def summary_file_def
          statistics_file_def summary_of_def comp_def)
qed

text \<open>
  Claim C9. A response whose JSON lacks the key \<^verbatim>\<open>'daily'\<close> makes
  \<^verbatim>\<open>get_historical_temperature\<close> return \<^verbatim>\<open>None\<close>, and the pipeline leaves out exactly
  the locations whose fetch returned \<^verbatim>\<open>None\<close>. In every run that completes, the
  locations of the summary it writes are those whose fetch result is not \<^verbatim>\<open>None\<close>, in
  the order of the list. And whenever the loop ends without an exception, the locations
  it has put into \<^verbatim>\<open>temperature_data\<close> are those whose fetch result is not \<^verbatim>\<open>None\<close>, a
  location with an empty data frame among them.
\<close>

theorem only_none_is_a_failed_fetch:
  "get_historical_temperature (Json None) la lo = Inr None \<and>
   (raised (process_temperature_pipeline config inputs t1 t2 t3) = None \<longrightarrow>
      concat (map summary_aim_ids
        (files_written (process_temperature_pipeline config inputs t1 t2 t3))) =
        map (aim_id \<circ> fst) (filter (\<lambda>x. fetch x \<noteq> Inr None) inputs)) \<and>
   (fetch_loop inputs [] [] = Inr (td, dd) \<longrightarrow>
      map loc_aim_id td = map (aim_id \<circ> fst) (filter (\<lambda>x. fetch x \<noteq> Inr None) inputs))"
proof (intro conjI impI)
  show "get_historical_temperature (Json None) la lo = Inr None"
    by (simp add: get_historical_temperature_def)
next
  assume run: "raised (process_temperature_pipeline config inputs t1 t2 t3) = None"
  then have none: "first_raise inputs = None" by (simp add: raised_cases)
  have "map (\<lambda>x. aim_id (fst x)) (fetched inputs) = map aim_id (map fst (fetched inputs))"
    by simp
  also have "\<dots> = map aim_id (map fst (filter (\<lambda>x. fetch x \<noteq> Inr None) inputs))"
    by (simp only: fetched_eq_filter [OF none])
  finally show "concat (map summary_aim_ids
        (files_written (process_temperature_pipeline config inputs t1 t2 t3))) =
        map (aim_id \<circ> fst) (filter (\<lambda>x. fetch x \<noteq> Inr None) inputs)"
    by (simp add: summary_ids_completed [OF run])
next
  assume loop: "fetch_loop inputs [] [] = Inr (td, dd)"
  then have none: "first_raise inputs = None"
    and td: "td = map summary_of (fetched inputs)"
    by (simp_all add: fetch_loop_eq split: option.splits)
  have "map loc_aim_id td = map aim_id (map fst (fetched inputs))"
    by (simp add: td summary_of_def comp_def)
  also have "\<dots> = map aim_id (map fst (filter (\<lambda>x. fetch x \<noteq> Inr None) inputs))"
    by (simp only: fetched_eq_filter [OF none])
  finally show "map loc_aim_id td =
      map (aim_id \<circ> fst) (filter (\<lambda>x. fetch x \<noteq> Inr None) inputs)"
    by simp
qed

lemma series_mean_two_days: "series_mean (map temperature_mean two_days_frame) = Some (7 / 2)"
  by (simp add: series_mean_def dropna_def two_days_frame_def List.map_filter_simps)

lemma series_mean_three_days: "series_mean (map temperature_mean three_days_frame) = Some (33 / 2)"
  by (simp add: series_mean_def dropna_def three_days_frame_def List.map_filter_simps)

lemma completes_sample:
  "raised (process_temperature_pipeline sample_config
     [(aim_1, Json (Some two_days)), (aim_2, Json None), (aim_3, Json (Some three_days))]
     t1 t2 t3) = None"
  by (simp add: raised_cases fetched_Cons fetch_two_days fetch_no_daily fetch_three_days
        summary_of_avg series_mean_two_days series_mean_three_days store_def
        separator_free_def aim_1_def aim_3_def)

theorem only_none_is_a_failed_fetch_witness:
  "raised (process_temperature_pipeline sample_config
     [(aim_1, Json (Some two_days)), (aim_2, Json None), (aim_3, Json (Some three_days))]
     sample_now sample_now sample_later) = None \<and>
   concat (map summary_aim_ids (files_written (process_temperature_pipeline sample_config
     [(aim_1, Json (Some two_days)), (aim_2, Json None), (aim_3, Json (Some three_days))]
     sample_now sample_now sample_later))) = [''Aim 1'', ''Aim 3''] \<and>
   (\<exists>td dd. fetch_loop [(aim_1, Json (Some two_days)), (aim_2, Json None),
                          (aim_3, Json (Some no_days))] [] [] = Inr (td, dd) \<and>
            map loc_aim_id td = [''Aim 1'', ''Aim 3''])"
proof -
  let ?a = "[(aim_1, Json (Some two_days)), (aim_2, Json None), (aim_3, Json (Some three_days))]"
  let ?b = "[(aim_1, Json (Some two_days)), (aim_2, Json None), (aim_3, Json (Some no_days))]"
  have run: "raised (process_temperature_pipeline sample_config ?a sample_now sample_now sample_later)
               = None"
    by (rule completes_sample)
  have fa: "map (aim_id \<circ> fst) (filter (\<lambda>x. fetch x \<noteq> Inr None) ?a) = [''Aim 1'', ''Aim 3'']"
    by (simp add: fetch_two_days fetch_no_daily fetch_three_days aim_1_def aim_3_def)
  have fb: "map (aim_id \<circ> fst) (filter (\<lambda>x. fetch x \<noteq> Inr None) ?b) = [''Aim 1'', ''Aim 3'']"
    by (simp add: fetch_two_days fetch_no_daily fetch_no_days aim_1_def aim_3_def)
  obtain td dd where loop: "fetch_loop ?b [] [] = Inr (td, dd)"
    by (simp add: fetch_loop_eq fetch_two_days fetch_no_daily fetch_no_days)
  note a = only_none_is_a_failed_fetch [of 0 0 sample_config ?a sample_now sample_now sample_later]
  note b = only_none_is_a_failed_fetch [of 0 0 sample_config ?b sample_now sample_now sample_later td dd]
  from a run fa have 1: "concat (map summary_aim_ids (files_written
      (process_temperature_pipeline sample_config ?a sample_now sample_now sample_later))) =
      [''Aim 1'', ''Aim 3'']" by metis
  from b loop fb have 2: "map loc_aim_id td = [''Aim 1'', ''Aim 3'']" by metis
  have 3: "\<exists>td dd. fetch_loop ?b [] [] = Inr (td, dd) \<and> map loc_aim_id td = [''Aim 1'', ''Aim 3'']"
  proof (intro exI conjI)
    show "fetch_loop ?b [] [] = Inr (td, dd)" by (rule loop)
    show "map loc_aim_id td = [''Aim 1'', ''Aim 3'']" by (rule 2)
  qed
  from run 1 3 show ?thesis by (intro conjI)
qed

subsection \<open>Failed fetches\<close>

lemma first_raise_append:
  "(\<forall>x\<in>set pre. \<not> isl (fetch x)) \<Longrightarrow> first_raise (pre @ rest) = first_raise rest"
  by (induction pre) (auto split: sum.splits)

text \<open>
  Claim C3, as stated, fails: a location whose request raises a network error is not
  skipped. With three locations of which the second one's request raises, the run ends
  in that exception and writes nothing, though the first fetch had succeeded.
\<close>

theorem network_error_aborts_the_run:
  "process_temperature_pipeline sample_config
     [(aim_1, Json (Some two_days)), (aim_2, RequestRaises), (aim_3, Json (Some two_days))]
     sample_now sample_now sample_later = ([], Some ConnectionError)"
  by (simp add: pipeline_eq fetch_two_days fetch_request_raises)

text \<open>
  Claim C3, amended. A location whose response lacks the key \<^verbatim>\<open>'daily'\<close> is left out of
  all aggregation and output and the remaining locations are processed: the run, with
  the files it writes and the way it ends, is the one the pipeline makes on the list
  without these locations. An exception of the request is not caught: at the first
  location whose request raises a network error, no earlier fetch having raised, the
  run ends in that \<^verbatim>\<open>ConnectionError\<close> before any file is written.
\<close>

theorem missing_daily_is_skipped:
  "process_temperature_pipeline config (filter (\<lambda>x. snd x \<noteq> Json None) inputs) t1 t2 t3 =
     process_temperature_pipeline config inputs t1 t2 t3 \<and>
   ((\<forall>x\<in>set pre. \<not> isl (fetch x)) \<longrightarrow>
      process_temperature_pipeline config (pre @ (c, RequestRaises) # post) t1 t2 t3 =
        ([], Some ConnectionError))"
proof (intro conjI impI)
  show "process_temperature_pipeline config (filter (\<lambda>x. snd x \<noteq> Json None) inputs) t1 t2 t3 =
          process_temperature_pipeline config inputs t1 t2 t3"
    by (simp only: pipeline_eq first_raise_skip fetched_skip)
next
  assume "\<forall>x\<in>set pre. \<not> isl (fetch x)"
  then have "first_raise (pre @ (c, RequestRaises) # post) = first_raise ((c, RequestRaises) # post)"
    by (rule first_raise_append)
  also have "\<dots> = Some ConnectionError" by (simp add: fetch_request_raises)
  finally show "process_temperature_pipeline config (pre @ (c, RequestRaises) # post) t1 t2 t3 =
        ([], Some ConnectionError)"
    by (simp add: pipeline_eq)
qed

theorem missing_daily_is_skipped_witness:
  "process_temperature_pipeline sample_config [(aim_1, Json (Some two_days))]
     sample_now sample_now sample_later =
   process_temperature_pipeline sample_config [(aim_1, Json (Some two_days)), (aim_2, Json None)]
     sample_now sample_now sample_later \<and>
   process_temperature_pipeline sample_config
     [(aim_1, Json (Some two_days)), (aim_2, Json None), (aim_3, RequestRaises)]
     sample_now sample_now sample_later = ([], Some ConnectionError)"
proof -
  let ?a = "[(aim_1, Json (Some two_days)), (aim_2, Json None)]"
  let ?pre = "[(aim_1, Json (Some two_days)), (aim_2, Json None)]"
  have ha: "\<forall>x\<in>set ?pre. \<not> isl (fetch x)" by (simp add: fetch_two_days fetch_no_daily)
  have fa: "filter (\<lambda>x. snd x \<noteq> Json None) ?a = [(aim_1, Json (Some two_days))]" by simp
  note t = missing_daily_is_skipped [of sample_config ?a sample_now sample_now sample_later
               ?pre aim_3 "[]"]
  from t have 1: "process_temperature_pipeline sample_config [(aim_1, Json (Some two_days))]
       sample_now sample_now sample_later =
     process_temperature_pipeline sample_config ?a sample_now sample_now sample_later"
    unfolding fa by (rule conjunct1)
  from t ha have "process_temperature_pipeline sample_config (?pre @ (aim_3, RequestRaises) # [])
       sample_now sample_now sample_later = ([], Some ConnectionError)"
    by blast
  then have 2: "process_temperature_pipeline sample_config
     [(aim_1, Json (Some two_days)), (aim_2, Json None), (aim_3, RequestRaises)]
     sample_now sample_now sample_later = ([], Some ConnectionError)" by simp
  from 1 2 show ?thesis by (intro conjI)
qed

subsection \<open>The per-location tables\<close>

lemma detail_csvs_plots: "detail_csvs (map (plot_file out t) dd) = []"
  by (induction dd) (simp_all add: detail_csvs_def plot_file_def)

lemma detail_csvs_csvs: "detail_csvs (map (csv_file td out t) dd) = map (csv_file td out t) dd"
  by (induction dd) (simp_all add: detail_csvs_def csv_file_def)

lemma detail_csvs_append: "detail_csvs (xs @ ys) = detail_csvs xs @ detail_csvs ys"
  by (simp add: detail_csvs_def)

lemma detail_csvs_completed:
  assumes "raised (process_temperature_pipeline config inputs t1 t2 t3) = None"
  shows "detail_csvs (files_written (process_temperature_pipeline config inputs t1 t2 t3)) =
         map (csv_file (map summary_of (fetched inputs)) (config_output_path config) t3)
           (fold store (fetched inputs) [])"
proof (cases "fetched inputs = []")
  case True
  then show ?thesis by (simp add: no_fetch_no_export detail_csvs_def)
next
  case False
  have h: "detail_csvs [heatmap_file td out t] = []"
    and s: "detail_csvs [summary_file td out t] = []"
    and st: "detail_csvs [statistics_file td dd out t] = []" for td dd out t
    by (simp_all add: detail_csvs_def heatmap_file_def summary_file_def statistics_file_def)
  have "files_written (process_temperature_pipeline config inputs t1 t2 t3) =
     [heatmap_file (map summary_of (fetched inputs)) (config_output_path config) t1] @
     map (plot_file (config_output_path config) t2) (fold store (fetched inputs) []) @
     [summary_file (map summary_of (fetched inputs)) (config_output_path config) t3] @
     map (csv_file (map summary_of (fetched inputs)) (config_output_path config) t3)
       (fold store (fetched inputs) []) @
     [statistics_file (map summary_of (fetched inputs)) (fold store (fetched inputs) [])
        (config_output_path config) t3]"
    by (simp add: completed_files [OF assms False])
  then show ?thesis
    by (simp only: detail_csvs_append h s st detail_csvs_plots detail_csvs_csvs append_Nil
          append_Nil2)
qed

text \<open>
  Claim C4, as stated, fails: with two locations of which the first is fetched and the
  second one's request raises, one fetch has returned a data frame and the run writes
  no detail CSV at all.
\<close>

theorem aborted_run_writes_no_detail_csv:
  "length (filter fetch_succeeded [(aim_1, Json (Some two_days)), (aim_2, RequestRaises)]) = 1 \<and>
   length (detail_csvs (files_written (process_temperature_pipeline sample_config
     [(aim_1, Json (Some two_days)), (aim_2, RequestRaises)]
     sample_now sample_now sample_later))) = 0"
  by (simp add: pipeline_eq fetch_two_days fetch_request_raises fetch_succeeded_def
        files_written_def detail_csvs_def)

text \<open>
  Claim C4, amended. For every list of locations with pairwise distinct identifiers and
  every run that completes, that is, that no exception ends, the number of detail CSV
  files written equals the number of locations whose fetch returned a data frame, and
  these files have pairwise different paths.
\<close>

theorem one_detail_csv_per_fetched_location:
  "distinct (map (\<lambda>x. aim_id (fst x)) inputs) \<Longrightarrow>
   raised (process_temperature_pipeline config inputs t1 t2 t3) = None \<Longrightarrow>
   length (detail_csvs (files_written (process_temperature_pipeline config inputs t1 t2 t3))) =
     length (filter fetch_succeeded inputs) \<and>
   distinct (map fst (detail_csvs (files_written
     (process_temperature_pipeline config inputs t1 t2 t3))))"
proof -
  assume d: "distinct (map (\<lambda>x. aim_id (fst x)) inputs)"
     and run: "raised (process_temperature_pipeline config inputs t1 t2 t3) = None"
  have df: "distinct (map (\<lambda>x. aim_id (fst x)) (fetched inputs))"
    using d by (rule fetched_distinct)
  have dd: "fold store (fetched inputs) [] = map (\<lambda>x. (aim_id (fst x), snd x)) (fetched inputs)"
    using fold_store_distinct [OF df, of "[]"] by simp
  have csvs: "detail_csvs (files_written (process_temperature_pipeline config inputs t1 t2 t3)) =
     map (csv_file (map summary_of (fetched inputs)) (config_output_path config) t3)
         (map (\<lambda>x. (aim_id (fst x), snd x)) (fetched inputs))"
    using detail_csvs_completed [OF run] dd by simp
  have len: "length (detail_csvs (files_written
      (process_temperature_pipeline config inputs t1 t2 t3))) = length (filter fetch_succeeded inputs)"
    by (simp add: csvs fetched_length)
  have paths: "map fst (detail_csvs (files_written
      (process_temperature_pipeline config inputs t1 t2 t3))) =
     map (\<lambda>a. os_path_join (config_output_path config) (detail_name a (strftime t3)))
       (map (\<lambda>x. aim_id (fst x)) (fetched inputs))"
    by (simp add: csvs comp_def csv_file_def)
  have inj: "inj (\<lambda>a. os_path_join (config_output_path config) (detail_name a (strftime t3)))"
  proof (rule injI)
    fix a a'
    assume "os_path_join (config_output_path config) (detail_name a (strftime t3)) =
            os_path_join (config_output_path config) (detail_name a' (strftime t3))"
    then have "detail_name a (strftime t3) = detail_name a' (strftime t3)"
      by (subst (asm) os_path_join_inj) (simp_all add: detail_name_def)
    then show "a = a'" by (simp add: detail_name_inj)
  qed
  have "distinct (map fst (detail_csvs (files_written
      (process_temperature_pipeline config inputs t1 t2 t3))))"
    unfolding paths using df inj by (auto simp: distinct_map inj_on_def)
  with len show ?thesis ..
qed

theorem one_detail_csv_per_fetched_location_witness:
  "raised (process_temperature_pipeline sample_config
     [(aim_1, Json (Some two_days)), (aim_2, Json None), (aim_3, Json (Some three_days))]
     sample_now sample_now sample_later) = None \<and>
   length (detail_csvs (files_written (process_temperature_pipeline sample_config
     [(aim_1, Json (Some two_days)), (aim_2, Json None), (aim_3, Json (Some three_days))]
     sample_now sample_now sample_later))) = 2 \<and>
   distinct (map fst (detail_csvs (files_written (process_temperature_pipeline sample_config
     [(aim_1, Json (Some two_days)), (aim_2, Json None), (aim_3, Json (Some three_days))]
     sample_now sample_now sample_later))))"
proof -
  let ?inputs = "[(aim_1, Json (Some two_days)), (aim_2, Json None), (aim_3, Json (Some three_days))]"
  have d: "distinct (map (\<lambda>x. aim_id (fst x)) ?inputs)"
    by (simp add: aim_1_def aim_2_def aim_3_def)
  have run: "raised (process_temperature_pipeline sample_config ?inputs
      sample_now sample_now sample_later) = None"
    by (rule completes_sample)
  have n: "length (filter fetch_succeeded ?inputs) = 2"
    by (simp add: fetch_succeeded_def fetch_two_days fetch_no_daily fetch_three_days)
  from one_detail_csv_per_fetched_location [OF d run] n run
  show ?thesis by simp
qed

subsection \<open>The heat map\<close>

lemma heat_maps_append: "heat_maps (xs @ ys) = heat_maps xs @ heat_maps ys"
  by (induction xs rule: heat_maps.induct) simp_all

lemma heat_maps_plots: "heat_maps (map (plot_file out t) dd) = []"
  by (induction dd) (simp_all add: plot_file_def)

lemma heat_maps_csvs: "heat_maps (map (csv_file td out t) dd) = []"
  by (induction dd) (simp_all add: csv_file_def)

lemma dropna_values: "dropna xs = map the (filter (\<lambda>v. v \<noteq> None) xs)"
  by (induction xs) (auto simp: dropna_def List.map_filter_simps)

lemma series_mean_values:
  "series_mean (map temperature_mean df) =
     (if temperature_means df = [] then None else Some (arithmetic_mean (temperature_means df)))"
  by (simp add: series_mean_def Let_def dropna_values temperature_means_def arithmetic_mean_def)

lemma heat_maps_exported:
  assumes none: "first_raise inputs = None"
    and ne: "fetched inputs \<noteq> []"
    and vals: "\<forall>x\<in>set (fetched inputs). temperature_means (snd x) \<noteq> []"
  shows "heat_maps (files_written (process_temperature_pipeline config inputs t1 t2 t3)) =
     [\<lparr>location = (arithmetic_mean (map (\<lambda>x. latitude (fst x)) (fetched inputs)),
                   arithmetic_mean (map (\<lambda>x. longitude (fst x)) (fetched inputs))),
       heatmap_data =
         map (\<lambda>x. (latitude (fst x), longitude (fst x), arithmetic_mean (temperature_means (snd x))))
             (fetched inputs)\<rparr>]"
proof -
  let ?td = "map summary_of (fetched inputs)"
  let ?dd = "fold store (fetched inputs) []"
  let ?out = "config_output_path config"
  have avg: "\<not> list_ex (\<lambda>d. avg_temp d = None) ?td"
    using vals by (auto simp: list_ex_iff summary_of_avg series_mean_values)
  have hm: "heat_maps [heatmap_file ?td ?out t1] =
     [\<lparr>location = (arithmetic_mean (map (\<lambda>x. latitude (fst x)) (fetched inputs)),
                   arithmetic_mean (map (\<lambda>x. longitude (fst x)) (fetched inputs))),
       heatmap_data =
         map (\<lambda>x. (latitude (fst x), longitude (fst x), arithmetic_mean (temperature_means (snd x))))
             (fetched inputs)\<rparr>]"
    using vals
    by (simp add: heatmap_file_def summary_of_def comp_def series_mean_values)
  have pre: "heat_maps (map (plot_file ?out t2) xs) = []" for xs by (rule heat_maps_plots)
  have rest: "heat_maps (summary_file ?td ?out t3 # map (csv_file ?td ?out t3) ?dd @
                 [statistics_file ?td ?dd ?out t3]) = []"
    by (simp add: summary_file_def statistics_file_def heat_maps_append heat_maps_csvs)
  have "files_written (process_temperature_pipeline config inputs t1 t2 t3) =
          [heatmap_file ?td ?out t1] @ map (plot_file ?out t2) (takeWhile separator_free ?dd) \<or>
        files_written (process_temperature_pipeline config inputs t1 t2 t3) =
          [heatmap_file ?td ?out t1] @ map (plot_file ?out t2) ?dd @
            (summary_file ?td ?out t3 # map (csv_file ?td ?out t3) ?dd @
                 [statistics_file ?td ?dd ?out t3])"
    using none ne avg by (simp add: pipeline_eq export_all_eq files_written_def)
  then show ?thesis
    by (auto simp only: heat_maps_append hm pre rest append_Nil2)
qed

text \<open>
  Claim C7. When at least one location was fetched, no fetch raised and every fetched
  frame holds a \<^verbatim>\<open>temperature_mean\<close> value, the run writes one heat map. It is centred at
  the arithmetic mean of the latitudes and of the longitudes of the fetched locations,
  and it weights each of them by the arithmetic mean of the \<^verbatim>\<open>temperature_mean\<close> values
  of its whole frame, the missing values left out. No heat map is written otherwise:
  a weight that is not a number is refused by the heat layer.
\<close>

theorem heat_map_center_and_weights:
  "(first_raise inputs = None \<and> fetched inputs \<noteq> [] \<and>
    (\<forall>x\<in>set (fetched inputs). temperature_means (snd x) \<noteq> []) \<longrightarrow>
    heat_maps (files_written (process_temperature_pipeline config inputs t1 t2 t3)) =
     [\<lparr>location = (arithmetic_mean (map (\<lambda>x. latitude (fst x)) (fetched inputs)),
                   arithmetic_mean (map (\<lambda>x. longitude (fst x)) (fetched inputs))),
       heatmap_data =
         map (\<lambda>x. (latitude (fst x), longitude (fst x), arithmetic_mean (temperature_means (snd x))))
             (fetched inputs)\<rparr>]) \<and>
   (\<not> (first_raise inputs = None \<and> fetched inputs \<noteq> [] \<and>
        (\<forall>x\<in>set (fetched inputs). temperature_means (snd x) \<noteq> [])) \<longrightarrow>
    heat_maps (files_written (process_temperature_pipeline config inputs t1 t2 t3)) = [])"
proof (intro conjI impI)
  assume "first_raise inputs = None \<and> fetched inputs \<noteq> [] \<and>
    (\<forall>x\<in>set (fetched inputs). temperature_means (snd x) \<noteq> [])"
  then show "heat_maps (files_written (process_temperature_pipeline config inputs t1 t2 t3)) =
     [\<lparr>location = (arithmetic_mean (map (\<lambda>x. latitude (fst x)) (fetched inputs)),
                   arithmetic_mean (map (\<lambda>x. longitude (fst x)) (fetched inputs))),
       heatmap_data =
         map (\<lambda>x. (latitude (fst x), longitude (fst x), arithmetic_mean (temperature_means (snd x))))
             (fetched inputs)\<rparr>]"
    using heat_maps_exported by blast
next
  assume n: "\<not> (first_raise inputs = None \<and> fetched inputs \<noteq> [] \<and>
        (\<forall>x\<in>set (fetched inputs). temperature_means (snd x) \<noteq> []))"
  have "files_written (process_temperature_pipeline config inputs t1 t2 t3) = []"
  proof (cases "first_raise inputs")
    case (Some e)
    then show ?thesis by (simp add: pipeline_eq files_written_def)
  next
    case None
    show ?thesis
    proof (cases "fetched inputs = []")
      case True
      then show ?thesis by (rule no_fetch_no_export)
    next
      case False
      with None n obtain x where "x \<in> set (fetched inputs)" "temperature_means (snd x) = []"
        by blast
      then have "list_ex (\<lambda>d. avg_temp d = None) (map summary_of (fetched inputs))"
        by (auto simp: list_ex_iff summary_of_avg series_mean_values)
      with None False show ?thesis
        by (simp add: pipeline_eq export_all_eq files_written_def)
    qed
  qed
  then show "heat_maps (files_written (process_temperature_pipeline config inputs t1 t2 t3)) = []"
    by simp
qed

lemma fetched_sample:
  "fetched [(aim_1, Json (Some two_days)), (aim_2, Json None), (aim_3, Json (Some three_days))] =
   [(aim_1, two_days_frame), (aim_3, three_days_frame)]"
  by (simp add: fetched_Cons fetch_two_days fetch_no_daily fetch_three_days)

lemma temperature_means_two_days: "temperature_means two_days_frame = [3, 4]"
  by (simp add: temperature_means_def two_days_frame_def)

lemma temperature_means_three_days: "temperature_means three_days_frame = [15, 18]"
  by (simp add: temperature_means_def three_days_frame_def)

theorem heat_map_center_and_weights_witness:
  "first_raise [(aim_1, Json (Some two_days)), (aim_2, Json None), (aim_3, Json (Some three_days))]
     = None \<and>
   fetched [(aim_1, Json (Some two_days)), (aim_2, Json None), (aim_3, Json (Some three_days))] =
     [(aim_1, two_days_frame), (aim_3, three_days_frame)] \<and>
   temperature_means two_days_frame = [3, 4] \<and>
   temperature_means three_days_frame = [15, 18] \<and>
   heat_maps (files_written (process_temperature_pipeline sample_config
     [(aim_1, Json (Some two_days)), (aim_2, Json None), (aim_3, Json (Some three_days))]
     sample_now sample_now sample_later)) =
   [\<lparr>location = (111 / 2, - 5 / 4),
     heatmap_data = [(55, - 3 / 2, 7 / 2), (56, - 1, 33 / 2)]\<rparr>] \<and>
   fetched [(aim_1, Json (Some no_days))] = [(aim_1, [])] \<and>
   temperature_means [] = [] \<and>
   heat_maps (files_written (process_temperature_pipeline sample_config
     [(aim_1, Json (Some no_days))] sample_now sample_now sample_later)) = []"
proof -
  let ?inputs = "[(aim_1, Json (Some two_days)), (aim_2, Json None), (aim_3, Json (Some three_days))]"
  have none: "first_raise ?inputs = None"
    by (simp add: fetch_two_days fetch_no_daily fetch_three_days)
  have ne: "fetched ?inputs \<noteq> []" by (simp add: fetched_sample)
  have vals: "\<forall>x\<in>set (fetched ?inputs). temperature_means (snd x) \<noteq> []"
    by (simp add: fetched_sample temperature_means_two_days temperature_means_three_days)
  have "heat_maps (files_written (process_temperature_pipeline sample_config ?inputs
          sample_now sample_now sample_later)) =
     [\<lparr>location = (arithmetic_mean (map (\<lambda>x. latitude (fst x)) (fetched ?inputs)),
                   arithmetic_mean (map (\<lambda>x. longitude (fst x)) (fetched ?inputs))),
       heatmap_data =
         map (\<lambda>x. (latitude (fst x), longitude (fst x), arithmetic_mean (temperature_means (snd x))))
             (fetched ?inputs)\<rparr>]"
    using heat_map_center_and_weights
            [of ?inputs sample_config sample_now sample_now sample_later] none ne vals
    by blast
  then have one: "heat_maps (files_written (process_temperature_pipeline sample_config ?inputs
          sample_now sample_now sample_later)) =
     [\<lparr>location = (111 / 2, - 5 / 4),
       heatmap_data = [(55, - 3 / 2, 7 / 2), (56, - 1, 33 / 2)]\<rparr>]"
    unfolding fetched_sample
    by (simp add: temperature_means_two_days temperature_means_three_days arithmetic_mean_def
          aim_1_def aim_3_def)
  have f: "fetched [(aim_1, Json (Some no_days))] = [(aim_1, [])]"
    by (simp add: fetched_Cons fetch_no_days)
  have e: "temperature_means [] = []" by (simp add: temperature_means_def)
  have "\<not> (first_raise [(aim_1, Json (Some no_days))] = None \<and>
            fetched [(aim_1, Json (Some no_days))] \<noteq> [] \<and>
            (\<forall>x\<in>set (fetched [(aim_1, Json (Some no_days))]). temperature_means (snd x) \<noteq> []))"
    by (simp add: f e)
  then have two: "heat_maps (files_written (process_temperature_pipeline sample_config
     [(aim_1, Json (Some no_days))] sample_now sample_now sample_later)) = []"
    using heat_map_center_and_weights
            [of "[(aim_1, Json (Some no_days))]" sample_config sample_now sample_now sample_later]
    by blast
  show ?thesis
    using none one two f e
    by (simp only: fetched_sample temperature_means_two_days temperature_means_three_days
          simp_thms)
qed

subsection \<open>File names under their timestamps\<close>

lemma endswith_append: "endswith (stem @ suffix) suffix"
  by (simp add: endswith_def)

lemma os_path_join_endswith:
  "b \<noteq> [] \<Longrightarrow> hd b \<noteq> CHR ''/'' \<Longrightarrow> endswith b suffix \<Longrightarrow> endswith (os_path_join a b) suffix"
  by (auto simp: os_path_join_relative endswith_def)

lemma files_of_a_run:
  "set (files_written (process_temperature_pipeline config inputs t1 t2 t3)) \<subseteq>
     insert (heatmap_file (map summary_of (fetched inputs)) (config_output_path config) t1)
       (plot_file (config_output_path config) t2 ` set (fold store (fetched inputs) [])) \<union>
     insert (summary_file (map summary_of (fetched inputs)) (config_output_path config) t3)
       (insert (statistics_file (map summary_of (fetched inputs)) (fold store (fetched inputs) [])
                  (config_output_path config) t3)
          (csv_file (map summary_of (fetched inputs)) (config_output_path config) t3 `
             set (fold store (fetched inputs) [])))"
  by (auto simp: pipeline_eq export_all_eq files_written_def split: option.splits
        dest: set_takeWhileD)

lemma paths_form:
  assumes "p \<in> set (paths_written config inputs t1 t2 t3)"
  shows "\<exists>stem ts e. (ts, e) \<in> set (stamps t1 t2 t3) \<and>
           p = os_path_join (config_output_path config) (''temperature_'' @ stem @ ts @ e)"
proof -
  let ?out = "config_output_path config"
  from assms obtain f where
    f: "f \<in> set (files_written (process_temperature_pipeline config inputs t1 t2 t3))"
    and p: "p = fst f"
    by (auto simp: paths_written_def)
  from f files_of_a_run [of config inputs t1 t2 t3] consider
      (heat) "p = os_path_join ?out (''temperature_heatmap_'' @ strftime t1 @ ''.html'')"
    | (plot) a where "p = os_path_join ?out (trends_name a (strftime t2))"
    | (summary) "p = os_path_join ?out (''temperature_summary_'' @ strftime t3 @ ''.json'')"
    | (csv) a where "p = os_path_join ?out (detail_name a (strftime t3))"
    | (stats) "p = os_path_join ?out (''temperature_statistics_'' @ strftime t3 @ ''.csv'')"
    unfolding p
    by (auto simp: heatmap_file_def plot_file_def summary_file_def csv_file_def
          statistics_file_def)
  then show ?thesis
  proof cases
    case heat
    have "(strftime t1, ''.html'') \<in> set (stamps t1 t2 t3)" by (simp add: stamps_def)
    moreover have "p = os_path_join ?out (''temperature_'' @ ''heatmap_'' @ strftime t1 @ ''.html'')"
      using heat by simp
    ultimately show ?thesis by blast
  next
    case plot
    then have
      "p = os_path_join ?out (''temperature_'' @ (''trends_'' @ a @ ''_'') @ strftime t2 @ ''.png'')"
      by (simp add: trends_name_def)
    moreover have "(strftime t2, ''.png'') \<in> set (stamps t1 t2 t3)" by (simp add: stamps_def)
    ultimately show ?thesis by blast
  next
    case summary
    have "(strftime t3, ''.json'') \<in> set (stamps t1 t2 t3)" by (simp add: stamps_def)
    moreover have "p = os_path_join ?out (''temperature_'' @ ''summary_'' @ strftime t3 @ ''.json'')"
      using summary by simp
    ultimately show ?thesis by blast
  next
    case csv
    then have
      "p = os_path_join ?out (''temperature_'' @ (''data_'' @ a @ ''_'') @ strftime t3 @ ''.csv'')"
      by (simp add: detail_name_def)
    moreover have "(strftime t3, ''.csv'') \<in> set (stamps t1 t2 t3)" by (simp add: stamps_def)
    ultimately show ?thesis by blast
  next
    case stats
    have "(strftime t3, ''.csv'') \<in> set (stamps t1 t2 t3)" by (simp add: stamps_def)
    moreover have "p = os_path_join ?out (''temperature_'' @ ''statistics_'' @ strftime t3 @ ''.csv'')"
      using stats by simp
    ultimately show ?thesis by blast
  qed
qed

lemma extension_tail:
  "e \<in> extensions \<Longrightarrow> take 4 (rev (x @ e)) = take 4 (rev e)"
  by (auto simp: extensions_def)

lemma extension_by_tail:
  "e \<in> extensions \<Longrightarrow> e' \<in> extensions \<Longrightarrow> take 4 (rev e) = take 4 (rev e') \<Longrightarrow> e = e'"
  by (auto simp: extensions_def)

lemma stamped_name_eq:
  assumes e: "e \<in> extensions" and e': "e' \<in> extensions"
    and l: "length ts = length ts'"
    and eq: "stem @ ts @ e = stem' @ ts' @ e'"
  shows "ts = ts' \<and> e = e'"
proof -
  have "take 4 (rev ((stem @ ts) @ e)) = take 4 (rev ((stem' @ ts') @ e'))"
    using eq by simp
  then have "take 4 (rev e) = take 4 (rev e')"
    by (simp only: extension_tail [OF e] extension_tail [OF e'])
  with e e' have ee: "e = e'" by (rule extension_by_tail)
  with eq have "stem @ ts = stem' @ ts'" by simp
  with l have "ts = ts'" by simp
  with ee show ?thesis by simp
qed

lemma stamps_extension: "(ts, e) \<in> set (stamps t1 t2 t3) \<Longrightarrow> e \<in> extensions"
  by (auto simp: stamps_def extensions_def)

lemma stamps_length: "(ts, e) \<in> set (stamps t1 t2 t3) \<Longrightarrow> length ts = 15"
  by (auto simp: stamps_def length_strftime)

lemma stamps_disjoint:
  assumes v: "valid_datetime a1" "valid_datetime a2" "valid_datetime a3"
             "valid_datetime b1" "valid_datetime b2" "valid_datetime b3"
    and d: "\<not> same_second a1 b1" "\<not> same_second a2 b2" "\<not> same_second a3 b3"
  shows "set (stamps a1 a2 a3) \<inter> set (stamps b1 b2 b3) = {}"
proof -
  have "strftime a1 \<noteq> strftime b1" using strftime_inj [OF v(1) v(4)] d(1) by blast
  moreover have "strftime a2 \<noteq> strftime b2" using strftime_inj [OF v(2) v(5)] d(2) by blast
  moreover have "strftime a3 \<noteq> strftime b3" using strftime_inj [OF v(3) v(6)] d(3) by blast
  ultimately show ?thesis by (auto simp: stamps_def)
qed

lemma paths_endswith:
  assumes "p \<in> set (paths_written config inputs t1 t2 t3)"
  shows "\<exists>ts e. (ts, e) \<in> set (stamps t1 t2 t3) \<and> endswith p (ts @ e)"
proof -
  from paths_form [OF assms] obtain stem ts e where
    m: "(ts, e) \<in> set (stamps t1 t2 t3)" and
    p: "p = os_path_join (config_output_path config) (''temperature_'' @ stem @ ts @ e)"
    by blast
  have "endswith ((''temperature_'' @ stem) @ ts @ e) (ts @ e)" by (rule endswith_append)
  then have "endswith (''temperature_'' @ stem @ ts @ e) (ts @ e)" by simp
  then have "endswith p (ts @ e)"
    unfolding p by (intro os_path_join_endswith) simp_all
  with m show ?thesis by blast
qed

lemma same_second_same_run:
  assumes "same_second a1 b1" "same_second a2 b2" "same_second a3 b3"
  shows "process_temperature_pipeline config inputs a1 a2 a3 =
         process_temperature_pipeline config inputs b1 b2 b3"
proof -
  have s: "strftime a1 = strftime b1" "strftime a2 = strftime b2" "strftime a3 = strftime b3"
    using assms by (simp_all add: strftime_same_second)
  have "heatmap_file td out a1 = heatmap_file td out b1" for td out
    by (simp add: heatmap_file_def s)
  moreover have "plot_file out a2 = plot_file out b2" for out
    by (rule ext) (simp add: plot_file_def s)
  moreover have "summary_file td out a3 = summary_file td out b3" for td out
    by (simp add: summary_file_def s)
  moreover have "csv_file td out a3 = csv_file td out b3" for td out
    by (rule ext) (simp add: csv_file_def s)
  moreover have "statistics_file td dd out a3 = statistics_file td dd out b3" for td dd out
    by (simp add: statistics_file_def s)
  ultimately show ?thesis
    by (simp only: pipeline_eq export_all_eq)
qed

lemma paths_sample:
  "paths_written sample_config [(aim_1, Json (Some two_days))] t1 t2 t3 =
     [''out/temperature_heatmap_'' @ strftime t1 @ ''.html'',
      ''out/temperature_trends_Aim 1_'' @ strftime t2 @ ''.png'',
      ''out/temperature_summary_'' @ strftime t3 @ ''.json'',
      ''out/temperature_data_Aim 1_'' @ strftime t3 @ ''.csv'',
      ''out/temperature_statistics_'' @ strftime t3 @ ''.csv'']"
proof -
  have f: "fetched [(aim_1, Json (Some two_days))] = [(aim_1, two_days_frame)]"
    by (simp add: fetched_Cons fetch_two_days)
  have r: "first_raise [(aim_1, Json (Some two_days))] = None"
    by (simp add: fetch_two_days)
  have out: "config_output_path sample_config = ''out''"
    by (simp add: config_output_path_def sample_config_def)
  have dd: "fold store [(aim_1, two_days_frame)] [] = [(''Aim 1'', two_days_frame)]"
    by (simp add: store_def aim_1_def)
  have avg: "avg_temp (summary_of (aim_1, two_days_frame)) = Some (7 / 2)"
    by (simp add: summary_of_avg series_mean_two_days)
  show ?thesis
    unfolding paths_written_def pipeline_eq r f out dd
    by (simp add: export_all_eq avg separator_free_def files_written_def heatmap_file_def
          plot_file_def summary_file_def csv_file_def statistics_file_def trends_name_def
          detail_name_def os_path_join_def)
qed

lemma strftime_sample_now: "strftime sample_now = ''20240517_093007''"
  by (simp add: strftime_def pad2_def pad4_def digit_def sample_now_def)

lemma strftime_sample_later: "strftime sample_later = ''20240517_093008''"
  by (simp add: strftime_def pad2_def pad4_def digit_def sample_now_def sample_later_def)

lemma strftime_sample_same_second: "strftime sample_same_second = ''20240517_093007''"
  by (simp add: strftime_def pad2_def pad4_def digit_def sample_now_def sample_same_second_def)

text \<open>
  Claim C6, as stated, fails twice. The timestamp is not taken once per run: each of
  \<^verbatim>\<open>create_heatmap\<close>, \<^verbatim>\<open>create_trend_plots\<close> and \<^verbatim>\<open>save_temperature_data\<close> reads the
  clock itself, and in a run whose third reading falls in the next second the files
  carry two timestamps. And the timestamp has the resolution of a second: a second run
  whose readings fall in the same second as those of the first, at another microsecond,
  writes to the same names.
\<close>

theorem exporters_stamp_separately_and_seconds_collide:
  "paths_written sample_config [(aim_1, Json (Some two_days))] sample_now sample_now sample_later =
     [''out/temperature_heatmap_20240517_093007.html'',
      ''out/temperature_trends_Aim 1_20240517_093007.png'',
      ''out/temperature_summary_20240517_093008.json'',
      ''out/temperature_data_Aim 1_20240517_093008.csv'',
      ''out/temperature_statistics_20240517_093008.csv''] \<and>
   sample_same_second \<noteq> sample_now \<and>
   paths_written sample_config [(aim_1, Json (Some two_days))]
       sample_same_second sample_same_second sample_same_second =
     paths_written sample_config [(aim_1, Json (Some two_days))] sample_now sample_now sample_now"
proof (intro conjI)
  show "paths_written sample_config [(aim_1, Json (Some two_days))] sample_now sample_now sample_later =
     [''out/temperature_heatmap_20240517_093007.html'',
      ''out/temperature_trends_Aim 1_20240517_093007.png'',
      ''out/temperature_summary_20240517_093008.json'',
      ''out/temperature_data_Aim 1_20240517_093008.csv'',
      ''out/temperature_statistics_20240517_093008.csv'']"
    by (simp add: paths_sample strftime_sample_now strftime_sample_later)
  show "sample_same_second \<noteq> sample_now"
    by (simp add: sample_same_second_def sample_now_def)
  show "paths_written sample_config [(aim_1, Json (Some two_days))]
       sample_same_second sample_same_second sample_same_second =
     paths_written sample_config [(aim_1, Json (Some two_days))] sample_now sample_now sample_now"
    by (simp add: paths_sample strftime_sample_now strftime_sample_same_second)
qed

text \<open>
  Claim C6, amended. Each exporter takes its own timestamp, formatted
  \<^verbatim>\<open>YYYYmmdd_HHMMSS\<close>, and every file it writes ends with that timestamp and the
  extension. Two runs into the same directory whose readings differ in the second, for
  each exporter, write disjoint sets of files, so the second run overwrites nothing of
  the first. Two runs over the same configuration and the same responses, hence into the
  same directory and with the same fetched identifiers, whose readings fall in the same
  second, for each exporter, write to the same file names.
\<close>

theorem different_seconds_different_files:
  "(\<forall>p\<in>set (paths_written config inputs a1 a2 a3).
      \<exists>ts e. (ts, e) \<in> set (stamps a1 a2 a3) \<and> endswith p (ts @ e)) \<and>
   (valid_datetime a1 \<and> valid_datetime a2 \<and> valid_datetime a3 \<and>
    valid_datetime b1 \<and> valid_datetime b2 \<and> valid_datetime b3 \<and>
    \<not> same_second a1 b1 \<and> \<not> same_second a2 b2 \<and> \<not> same_second a3 b3 \<longrightarrow>
    set (paths_written config inputs a1 a2 a3) \<inter>
      set (paths_written config inputs' b1 b2 b3) = {}) \<and>
   (same_second a1 b1 \<and> same_second a2 b2 \<and> same_second a3 b3 \<longrightarrow>
    paths_written config inputs a1 a2 a3 = paths_written config inputs b1 b2 b3)"
proof (intro conjI impI)
  show "\<forall>p\<in>set (paths_written config inputs a1 a2 a3).
            \<exists>ts e. (ts, e) \<in> set (stamps a1 a2 a3) \<and> endswith p (ts @ e)"
    using paths_endswith by blast
next
  assume h: "valid_datetime a1 \<and> valid_datetime a2 \<and> valid_datetime a3 \<and>
    valid_datetime b1 \<and> valid_datetime b2 \<and> valid_datetime b3 \<and>
    \<not> same_second a1 b1 \<and> \<not> same_second a2 b2 \<and> \<not> same_second a3 b3"
  then have dis: "set (stamps a1 a2 a3) \<inter> set (stamps b1 b2 b3) = {}"
    by (intro stamps_disjoint) simp_all
  show "set (paths_written config inputs a1 a2 a3) \<inter>
           set (paths_written config inputs' b1 b2 b3) = {}"
  proof (rule ccontr)
    assume "set (paths_written config inputs a1 a2 a3) \<inter>
           set (paths_written config inputs' b1 b2 b3) \<noteq> {}"
    then obtain p where pa: "p \<in> set (paths_written config inputs a1 a2 a3)"
      and pb: "p \<in> set (paths_written config inputs' b1 b2 b3)" by blast
    from paths_form [OF pa] obtain stem ts e where
      ma: "(ts, e) \<in> set (stamps a1 a2 a3)" and
      na: "p = os_path_join (config_output_path config) (''temperature_'' @ stem @ ts @ e)"
      by blast
    from paths_form [OF pb] obtain stem' ts' e' where
      mb: "(ts', e') \<in> set (stamps b1 b2 b3)" and
      nb: "p = os_path_join (config_output_path config) (''temperature_'' @ stem' @ ts' @ e')"
      by blast
    have "os_path_join (config_output_path config) (''temperature_'' @ stem @ ts @ e) =
          os_path_join (config_output_path config) (''temperature_'' @ stem' @ ts' @ e')"
      using na nb by simp
    then have "''temperature_'' @ stem @ ts @ e = ''temperature_'' @ stem' @ ts' @ e'"
      by (subst (asm) os_path_join_inj) simp_all
    then have eq: "stem @ ts @ e = stem' @ ts' @ e'" by simp
    have "length ts = length ts'"
      using stamps_length [OF ma] stamps_length [OF mb] by simp
    from stamped_name_eq [OF stamps_extension [OF ma] stamps_extension [OF mb] this eq]
    have "(ts, e) = (ts', e')" by simp
    with ma mb have "(ts, e) \<in> set (stamps a1 a2 a3) \<inter> set (stamps b1 b2 b3)" by simp
    with dis show False by simp
  qed
next
  assume "same_second a1 b1 \<and> same_second a2 b2 \<and> same_second a3 b3"
  then have "process_temperature_pipeline config inputs a1 a2 a3 =
             process_temperature_pipeline config inputs b1 b2 b3"
    by (intro same_second_same_run) simp_all
  then show "paths_written config inputs a1 a2 a3 = paths_written config inputs b1 b2 b3"
    by (simp add: paths_written_def)
qed

theorem different_seconds_different_files_witness:
  "paths_written sample_config [(aim_1, Json (Some two_days))] sample_now sample_now sample_now \<noteq> [] \<and>
   paths_written sample_config [(aim_1, Json (Some two_days))] sample_later sample_later sample_later \<noteq> [] \<and>
   valid_datetime sample_now \<and> valid_datetime sample_later \<and>
   \<not> same_second sample_now sample_later \<and>
   set (paths_written sample_config [(aim_1, Json (Some two_days))] sample_now sample_now sample_now) \<inter>
     set (paths_written sample_config [(aim_1, Json (Some two_days))]
            sample_later sample_later sample_later) = {} \<and>
   same_second sample_now sample_same_second \<and>
   paths_written sample_config [(aim_1, Json (Some two_days))] sample_now sample_now sample_now =
     paths_written sample_config [(aim_1, Json (Some two_days))]
       sample_same_second sample_same_second sample_same_second"
proof -
  have v: "valid_datetime sample_now" "valid_datetime sample_later"
    by (simp_all add: valid_datetime_def sample_now_def sample_later_def)
  have d: "\<not> same_second sample_now sample_later"
    by (simp add: same_second_def sample_now_def sample_later_def)
  have s: "same_second sample_now sample_same_second"
    by (simp add: same_second_def sample_now_def sample_same_second_def)
  have "set (paths_written sample_config [(aim_1, Json (Some two_days))] sample_now sample_now sample_now) \<inter>
     set (paths_written sample_config [(aim_1, Json (Some two_days))]
            sample_later sample_later sample_later) = {}"
    using different_seconds_different_files
      [of sample_config "[(aim_1, Json (Some two_days))]" sample_now sample_now sample_now
          sample_later sample_later sample_later "[(aim_1, Json (Some two_days))]"] v d
    by blast
  moreover have
    "paths_written sample_config [(aim_1, Json (Some two_days))] sample_now sample_now sample_now =
     paths_written sample_config [(aim_1, Json (Some two_days))]
       sample_same_second sample_same_second sample_same_second"
    using different_seconds_different_files
      [of sample_config "[(aim_1, Json (Some two_days))]" sample_now sample_now sample_now
          sample_same_second sample_same_second sample_same_second] s
    by blast
  moreover have
    "paths_written sample_config [(aim_1, Json (Some two_days))] sample_now sample_now sample_now \<noteq> []"
    "paths_written sample_config [(aim_1, Json (Some two_days))] sample_later sample_later sample_later \<noteq> []"
    by (simp_all add: paths_sample)
  ultimately show ?thesis using v d s by blast
qed

subsection \<open>The seasonal statistics\<close>








lemma col_season_annotate:
  "map col_season (annotate all_data a df) = map (\<lambda>r. season_of_month (month (date r))) df"
  by (simp add: annotate_def Let_def comp_def)































end
